theory Spec2Isabelle
  imports Complex_Main "HOL-Library.Word"
begin

section \<open>Conventions of the embedding\<close>

text \<open>
  The engine of \<^verbatim>\<open>SoundEngine.h\<close> computes with C++ \<^verbatim>\<open>double\<close>. The embedding
  computes with the real numbers: \<^verbatim>\<open>std::sin\<close> is \<^term>\<open>sin\<close>, \<^verbatim>\<open>std::pow(2, x)\<close>
  is \<^term>\<open>2 powr x\<close>, \<^verbatim>\<open>std::floor\<close> is \<^term>\<open>floor\<close>, and rounding is left out.
  A C++ exception is the left summand of a sum type, and so is behaviour the language
  leaves undefined (a read past the end of the input, an \<^verbatim>\<open>int\<close> that overflows).
  Member functions are named \<open>Class_member\<close>.
\<close>

datatype error = invalid_argument string | undefined_behaviour

type_synonym size_t = "64 word"

section \<open>Pitch table and note names\<close>

definition A440 :: real where
  "A440 = 440"

definition notesPerOctave :: nat where
  "notesPerOctave = 12"

definition octavesImplemented :: nat where
  "octavesImplemented = 9"

definition totalNotes :: nat where
  "totalNotes = notesPerOctave * octavesImplemented"

text \<open>The twelve assignments of one round of the loop in \<^verbatim>\<open>generateTwelveToneEqual\<close>.\<close>

definition fillOctave :: "real list \<Rightarrow> nat \<Rightarrow> real \<Rightarrow> real list" where
  "fillOctave notes O' A =
     notes[O' * notesPerOctave + 0 := A / 2 powr (9 / 12),
           O' * notesPerOctave + 1 := A / 2 powr (8 / 12),
           O' * notesPerOctave + 2 := A / 2 powr (7 / 12),
           O' * notesPerOctave + 3 := A / 2 powr (6 / 12),
           O' * notesPerOctave + 4 := A / 2 powr (5 / 12),
           O' * notesPerOctave + 5 := A / 2 powr (4 / 12),
           O' * notesPerOctave + 6 := A / 2 powr (3 / 12),
           O' * notesPerOctave + 7 := A / 2 powr (2 / 12),
           O' * notesPerOctave + 8 := A / 2 powr (1 / 12),
           O' * notesPerOctave + 9 := A,
           O' * notesPerOctave + 10 := A * 2 powr (1 / 12),
           O' * notesPerOctave + 11 := A * 2 powr (2 / 12)]"

function generateLoop :: "nat \<Rightarrow> real \<Rightarrow> real list \<Rightarrow> real list" where
  "generateLoop O' A notes =
     (if O' < octavesImplemented
      then generateLoop (O' + 1) (A * 2) (fillOctave notes O' A)
      else notes)"
  by pat_completeness auto
termination
  by (relation "measure (\<lambda>(O', A, notes). octavesImplemented - O')") auto

declare generateLoop.simps [simp del]

definition generateTwelveToneEqual :: "real \<Rightarrow> real list" where
  "generateTwelveToneEqual AAboveMiddleC =
     generateLoop 0 (AAboveMiddleC / 16) (replicate totalNotes 0)"

definition getStandardTwelveToneEqualNotes :: "real list" where
  "getStandardTwelveToneEqualNotes = generateTwelveToneEqual A440"

text \<open>\<^verbatim>\<open>std::to_string\<close> of a number that is not negative.\<close>

function to_string :: "nat \<Rightarrow> string" where
  "to_string n =
     (if n < 10 then [char_of (48 + n)]
      else to_string (n div 10) @ [char_of (48 + n mod 10)])"
  by pat_completeness auto
termination
  by (relation "measure id") auto

declare to_string.simps [simp del]

definition namesOfOctave :: "nat \<Rightarrow> string list" where
  "namesOfOctave i =
     [''C'' @ to_string i, ''C#'' @ to_string i, ''D'' @ to_string i, ''D#'' @ to_string i,
      ''E'' @ to_string i, ''F'' @ to_string i, ''F#'' @ to_string i, ''G'' @ to_string i,
      ''G#'' @ to_string i, ''A'' @ to_string i, ''A#'' @ to_string i, ''B'' @ to_string i]"

function namesLoop :: "nat \<Rightarrow> string list \<Rightarrow> string list" where
  "namesLoop i result =
     (if i < octavesImplemented then namesLoop (i + 1) (result @ namesOfOctave i) else result)"
  by pat_completeness auto
termination
  by (relation "measure (\<lambda>(i, result). octavesImplemented - i)") auto

declare namesLoop.simps [simp del]

definition generateNoteNames :: "string list" where
  "generateNoteNames = namesLoop 0 []"

definition getNoteNames :: "string list" where
  "getNoteNames = generateNoteNames"

section \<open>Oscillators\<close>

definition M_PI :: real where
  "M_PI = pi"

definition M_PI_2 :: real where
  "M_PI_2 = M_PI * 0.5"

definition M_TWOPI :: real where
  "M_TWOPI = M_PI * 2.0"

text \<open>\<^verbatim>\<open>std::copysign\<close>; the reals have no negative zero.\<close>

definition copysign :: "real \<Rightarrow> real \<Rightarrow> real" where
  "copysign x y = (if 0 \<le> y then \<bar>x\<bar> else - \<bar>x\<bar>)"

definition sineWave :: "real \<Rightarrow> real \<Rightarrow> real" where
  "sineWave frequency time = sin (frequency * M_TWOPI * time)"

definition triangularWave :: "real \<Rightarrow> real \<Rightarrow> real" where
  "triangularWave frequency time = arcsin (sin (frequency * M_TWOPI * time)) / M_PI_2"

definition squareWave :: "real \<Rightarrow> real \<Rightarrow> real" where
  "squareWave frequency time = copysign 1.0 (sin (frequency * M_TWOPI * time))"

text \<open>
  Where the doubles of the source leave these real functions: a product
  \<^verbatim>\<open>frequency * M_TWOPI * time\<close> that overflows makes \<^verbatim>\<open>std::sin\<close> return NaN, and
  from \<open>2 ^ 52\<close> on the sum \<^verbatim>\<open>Time + .5\<close> of \<^verbatim>\<open>sawWave\<close> is rounded to an integer, so
  that the source returns -2 where \<open>Time\<close> is odd. \<open>doubleSafe\<close> below names the
  arguments that stay clear of both.
\<close>

definition sawWave :: "real \<Rightarrow> real \<Rightarrow> real" where
  "sawWave frequency time =
     (let Time = frequency * time in 2.0 * (Time - of_int \<lfloor>Time + 0.5\<rfloor>))"

text \<open>
  \<^verbatim>\<open>std::hash<double>\<close> belongs to the C++ library, not to this repository: it is the
  parameter \<open>hash\<close>, a function into the 64-bit \<^verbatim>\<open>size_t\<close>. The divisor is
  \<^verbatim>\<open>std::numeric_limits<size_t>::max()\<close>.
\<close>

definition noise :: "(real \<Rightarrow> size_t) \<Rightarrow> real \<Rightarrow> real \<Rightarrow> real" where
  "noise hash frequency time =
     1.0 - 2.0 * (real (unat (hash (frequency * M_TWOPI * time))) / real (unat (- 1 :: size_t)))"

definition rectangularWave :: "real \<Rightarrow> real \<Rightarrow> real \<Rightarrow> real" where
  "rectangularWave frequency time duty =
     (let Time = frequency * M_TWOPI * time;
          loc = Time - of_int \<lfloor>Time / M_TWOPI\<rfloor> * M_TWOPI
      in if loc \<le> duty * M_TWOPI then 1.0 else - 1.0)"

text \<open>
  \<^verbatim>\<open>JavidSine\<close> and the two oscillators with low frequency oscillations of
  \<^verbatim>\<open>Harmonica.cpp\<close>. \<open>sawLFOLoop\<close> is the loop \<^verbatim>\<open>for (int n = 1; n < 100; ++n)\<close>, with \<open>sumSoFar\<close>
  for its variable \<^verbatim>\<open>sum\<close>.
\<close>

definition JavidSine :: "real \<Rightarrow> real" where
  "JavidSine val =
     (let x = val / M_TWOPI;
          x' = x - of_int \<lfloor>x\<rfloor>
      in 20.875 * x' * (x' - 0.5) * (x' - 1.0))"

definition squareWaveLFO :: "real \<Rightarrow> real \<Rightarrow> real \<Rightarrow> real \<Rightarrow> real" where
  "squareWaveLFO LFOLoudness LFORate frequency time =
     copysign 1.0
       (JavidSine (frequency * M_TWOPI * time
                   + LFOLoudness * frequency * JavidSine (LFORate * M_TWOPI * time)))"

function sawLFOLoop :: "nat \<Rightarrow> real \<Rightarrow> real \<Rightarrow> real" where
  "sawLFOLoop n fundemental sumSoFar =
     (if n < 100
      then sawLFOLoop (n + 1) fundemental
             (sumSoFar + JavidSine (real n * fundemental) / real n)
      else sumSoFar)"
  by pat_completeness auto
termination
  by (relation "measure (\<lambda>(n, fundemental, sumSoFar). 100 - n)") auto

declare sawLFOLoop.simps [simp del]

definition sawWaveLFO :: "real \<Rightarrow> real \<Rightarrow> real \<Rightarrow> real \<Rightarrow> real" where
  "sawWaveLFO LFOLoudness LFORate frequency time =
     sawLFOLoop 1
       (frequency * M_TWOPI * time
        + LFOLoudness * frequency * JavidSine (LFORate * M_TWOPI * time))
       0.0"

text \<open>
  The implementations of \<^verbatim>\<open>OscillatorImpl\<close>: the six of \<^verbatim>\<open>SoundEngine.h\<close>; of
  \<^verbatim>\<open>Harmonica.cpp\<close> the \<^verbatim>\<open>CompoundOscillator\<close> with its \<^verbatim>\<open>OscillatorHolder\<close> (gain,
  oscillator, harmonic) and the two oscillators with low frequency oscillations
  (loudness, rate); and any other implementation, which the interface asks to be
  immutable: it is the function that its \<^verbatim>\<open>note\<close> computes.
\<close>

datatype Oscillator =
    SineWaveOscillator
  | TriangularWaveOscillator
  | SquareWaveOscillator
  | SawWaveOscillator
  | NoiseOscillator
  | RectangularWaveOscillator real
  | CompoundOscillator "OscillatorHolder list"
  | SquareWaveWithLowFrequencyOscillations real real
  | SawWaveWithLowFrequencyOscillations real real
  | OtherOscillator "real \<Rightarrow> real \<Rightarrow> real"
and OscillatorHolder = OscillatorHolder real Oscillator real

fun Oscillator_note :: "(real \<Rightarrow> size_t) \<Rightarrow> Oscillator \<Rightarrow> real \<Rightarrow> real \<Rightarrow> real"
  and compoundLoop ::
    "(real \<Rightarrow> size_t) \<Rightarrow> OscillatorHolder list \<Rightarrow> real \<Rightarrow> real \<Rightarrow> real \<Rightarrow> real"
where
  "Oscillator_note hash SineWaveOscillator frequency time = sineWave frequency time"
| "Oscillator_note hash TriangularWaveOscillator frequency time = triangularWave frequency time"
| "Oscillator_note hash SquareWaveOscillator frequency time = squareWave frequency time"
| "Oscillator_note hash SawWaveOscillator frequency time = sawWave frequency time"
| "Oscillator_note hash NoiseOscillator frequency time = noise hash frequency time"
| "Oscillator_note hash (RectangularWaveOscillator duty) frequency time =
     rectangularWave frequency time duty"
| "Oscillator_note hash (CompoundOscillator oscillators) frequency time =
     compoundLoop hash oscillators frequency time 0.0"
| "Oscillator_note hash (SquareWaveWithLowFrequencyOscillations loudness rate) frequency time =
     squareWaveLFO loudness rate frequency time"
| "Oscillator_note hash (SawWaveWithLowFrequencyOscillations loudness rate) frequency time =
     sawWaveLFO loudness rate frequency time"
| "Oscillator_note hash (OtherOscillator impl) frequency time = impl frequency time"
| "compoundLoop hash [] frequency time result = result"
| "compoundLoop hash (OscillatorHolder gain osc harmonic # oscillators) frequency time result =
     compoundLoop hash oscillators frequency time
       (result + gain * Oscillator_note hash osc (harmonic * frequency) time)"




section \<open>Envelopes\<close>

text \<open>
  The implementations of \<^verbatim>\<open>EnvelopeImpl\<close>: \<^verbatim>\<open>AREnvelope\<close> (attackPeak, attackLength,
  releaseLength) of \<^verbatim>\<open>SoundEngine.h\<close> and \<^verbatim>\<open>ADSREnvelope\<close> (attackPeak, attackLength,
  decayLength, sustainLevel, releaseLength) of \<^verbatim>\<open>Harmonica.cpp\<close>.
\<close>

datatype Envelope =
    AREnvelope real real real
  | ADSREnvelope real real real real real

definition defaultAR :: Envelope where
  "defaultAR = AREnvelope 1.0 (240.0 / (64 * 256) * 0.1) (240.0 / (64 * 256) * 0.1)"

definition defaultADSR :: Envelope where
  "defaultADSR = ADSREnvelope 1.0 0.1 0.1 0.2 0.2"

fun Envelope_loud :: "Envelope \<Rightarrow> real \<Rightarrow> real \<Rightarrow> real" where
  "Envelope_loud (AREnvelope attackPeak attackLength releaseLength) time releaseTime =
     (if - 1.0 = releaseTime
      then (if time < attackLength then (time / attackLength) * attackPeak else attackPeak)
      else (let result =
                  (if releaseTime < attackLength then (time / attackLength) * attackPeak
                   else attackPeak)
            in result * ((releaseTime + releaseLength - time) / releaseLength)))"
| "Envelope_loud (ADSREnvelope attackPeak attackLength decayLength sustainLevel releaseLength)
       time releaseTime =
     (if - 1.0 = releaseTime
      then (if time < attackLength then (time / attackLength) * attackPeak
            else if time < attackLength + decayLength
            then attackPeak - ((time - attackLength) / decayLength) * (attackPeak - sustainLevel)
            else sustainLevel)
      else (let result =
                  (if releaseTime < attackLength then (time / attackLength) * attackPeak
                   else if releaseTime < attackLength + decayLength
                   then attackPeak
                          - ((time - attackLength) / decayLength) * (attackPeak - sustainLevel)
                   else sustainLevel)
            in result * ((releaseTime + releaseLength - time) / releaseLength)))"

fun Envelope_release :: "Envelope \<Rightarrow> real" where
  "Envelope_release (AREnvelope attackPeak attackLength releaseLength) = releaseLength"
| "Envelope_release (ADSREnvelope attackPeak attackLength decayLength sustainLevel releaseLength) =
     releaseLength"

section \<open>Instruments, notes and voices\<close>

record Instrument =
  oscillator :: Oscillator
  envelope :: Envelope

definition Instrument_note ::
  "(real \<Rightarrow> size_t) \<Rightarrow> Instrument \<Rightarrow> real \<Rightarrow> real \<Rightarrow> real \<Rightarrow> real" where
  "Instrument_note hash i frequency time releaseTime =
     Envelope_loud (envelope i) time releaseTime
       * Oscillator_note hash (oscillator i) frequency time"

definition Instrument_release :: "Instrument \<Rightarrow> real" where
  "Instrument_release i = Envelope_release (envelope i)"

definition makeSineWaveInstrument :: Instrument where
  "makeSineWaveInstrument = \<lparr>oscillator = SineWaveOscillator, envelope = defaultAR\<rparr>"

definition makeTriangularWaveInstrument :: Instrument where
  "makeTriangularWaveInstrument = \<lparr>oscillator = TriangularWaveOscillator, envelope = defaultAR\<rparr>"

definition makeSquareWaveInstrument :: Instrument where
  "makeSquareWaveInstrument = \<lparr>oscillator = SquareWaveOscillator, envelope = defaultAR\<rparr>"

definition makeSawWaveInstrument :: Instrument where
  "makeSawWaveInstrument = \<lparr>oscillator = SawWaveOscillator, envelope = defaultAR\<rparr>"

definition makeNoiseInstrument :: Instrument where
  "makeNoiseInstrument = \<lparr>oscillator = NoiseOscillator, envelope = defaultAR\<rparr>"

definition makeRectangularWaveInstrument :: "real \<Rightarrow> Instrument" where
  "makeRectangularWaveInstrument dutyCycle =
     \<lparr>oscillator = RectangularWaveOscillator dutyCycle, envelope = defaultAR\<rparr>"

record Note =
  instrument :: Instrument
  frequency :: real
  duration :: real
  volume :: real
  startTime :: real

text \<open>The constructor \<^verbatim>\<open>Note(instrument, frequency, startTime, duration, volume)\<close>.\<close>

definition mkNote :: "Instrument \<Rightarrow> real \<Rightarrow> real \<Rightarrow> real \<Rightarrow> real \<Rightarrow> Note" where
  "mkNote i f start d v =
     \<lparr>instrument = i, frequency = f, duration = d, volume = v, startTime = start\<rparr>"

definition Note_before :: "Note \<Rightarrow> real \<Rightarrow> bool" where
  "Note_before n time \<longleftrightarrow> time < startTime n"

definition Note_after :: "Note \<Rightarrow> real \<Rightarrow> bool" where
  "Note_after n time \<longleftrightarrow> time > startTime n + duration n + Instrument_release (instrument n)"

definition Note_play :: "(real \<Rightarrow> size_t) \<Rightarrow> Note \<Rightarrow> real \<Rightarrow> real" where
  "Note_play hash n time =
     (let noteTime = time - startTime n
      in volume n * Instrument_note hash (instrument n) (frequency n) noteTime
           (if noteTime < duration n then - 1.0 else duration n))"

text \<open>
  A \<^verbatim>\<open>Voice\<close>. Its \<^verbatim>\<open>activeNotes\<close> are pointers into its own \<^verbatim>\<open>notes\<close>, which
  no member function changes after the construction: the embedding keeps the notes they
  point to.
\<close>

record Voice =
  "notes" :: "Note list"
  index :: nat
  activeNotes :: "Note list"

definition mkVoice :: "Note list \<Rightarrow> Voice" where
  "mkVoice ns = \<lparr>notes = ns, index = 0, activeNotes = []\<rparr>"

definition Voice_playActive :: "(real \<Rightarrow> size_t) \<Rightarrow> Voice \<Rightarrow> real \<Rightarrow> real" where
  "Voice_playActive hash v time =
     foldl (\<lambda>sum n. sum + Note_play hash n time) 0.0 (activeNotes v)"

definition Voice_endPlay :: "(real \<Rightarrow> size_t) \<Rightarrow> Voice \<Rightarrow> real \<Rightarrow> real \<times> Voice" where
  "Voice_endPlay hash v time =
     (let result = Voice_playActive hash v time
      in (result, v\<lparr>activeNotes := filter (\<lambda>n. \<not> Note_after n time) (activeNotes v)\<rparr>))"

text \<open>The first loop of \<^verbatim>\<open>Voice::play\<close>: skip all passed notes.\<close>

function skipPassed :: "Voice \<Rightarrow> real \<Rightarrow> Voice" where
  "skipPassed v time =
     (if index v < length (notes v) \<and> Note_after (notes v ! index v) time
      then skipPassed (v\<lparr>index := index v + 1\<rparr>) time
      else v)"
  by pat_completeness auto
termination
  by (relation "measure (\<lambda>(v, time). length (notes v) - index v)") auto

declare skipPassed.simps [simp del]

text \<open>The last loop of \<^verbatim>\<open>Voice::play\<close>: every note that has started becomes active.\<close>

function activateStarted :: "Voice \<Rightarrow> real \<Rightarrow> Voice" where
  "activateStarted v time =
     (if index v < length (notes v) \<and> \<not> Note_before (notes v ! index v) time
      then activateStarted
             (v\<lparr>activeNotes := activeNotes v @ [notes v ! index v], index := index v + 1\<rparr>) time
      else v)"
  by pat_completeness auto
termination
  by (relation "measure (\<lambda>(v, time). length (notes v) - index v)") auto

declare activateStarted.simps [simp del]

definition Voice_play :: "(real \<Rightarrow> size_t) \<Rightarrow> Voice \<Rightarrow> real \<Rightarrow> real \<times> Voice" where
  "Voice_play hash v time =
     (let v1 = skipPassed v time
      in if index v1 = length (notes v1) then Voice_endPlay hash v1 time
         else if index v1 < length (notes v1) \<and> Note_before (notes v1 ! index v1) time
         then Voice_endPlay hash v1 time
         else Voice_endPlay hash (activateStarted v1 time) time)"

definition Voice_finished :: "Voice \<Rightarrow> bool" where
  "Voice_finished v \<longleftrightarrow> index v = length (notes v) \<and> 0 = length (activeNotes v)"

definition Voice_loop :: "Voice \<Rightarrow> Voice" where
  "Voice_loop v = v\<lparr>index := 0, activeNotes := []\<rparr>"

section \<open>Maestro and Venue\<close>

record Maestro =
  choir :: "Voice list"

fun playChoir :: "(real \<Rightarrow> size_t) \<Rightarrow> Voice list \<Rightarrow> real \<Rightarrow> real \<Rightarrow> real \<times> Voice list" where
  "playChoir hash [] time sample = (sample, [])"
| "playChoir hash (voice # rest) time sample =
     (let (s, voice') = Voice_play hash voice time;
          (sample', rest') = playChoir hash rest time (sample + s)
      in (sample', voice' # rest'))"

definition Maestro_play :: "(real \<Rightarrow> size_t) \<Rightarrow> Maestro \<Rightarrow> real \<Rightarrow> real \<times> Maestro" where
  "Maestro_play hash m time =
     (if 0 \<noteq> length (choir m)
      then (let (sample, choir') = playChoir hash (choir m) time 0.0
            in (sample / real (length (choir m)), m\<lparr>choir := choir'\<rparr>))
      else (0.0, m))"

definition Maestro_finished :: "Maestro \<Rightarrow> bool" where
  "Maestro_finished m = foldl (\<lambda>result voice. result \<and> Voice_finished voice) True (choir m)"

definition Maestro_loop :: "Maestro \<Rightarrow> Maestro" where
  "Maestro_loop m = m\<lparr>choir := map Voice_loop (choir m)\<rparr>"

text \<open>
  The \<^verbatim>\<open>Venue\<close>. Its member \<^verbatim>\<open>hollaback\<close>, a \<^verbatim>\<open>std::function<void(void)>\<close>, reaches
  the singleton through \<^verbatim>\<open>getInstance()\<close>: what a call of it does is a function on the
  other members, and the embedding passes it beside them (\<open>None\<close> is \<^verbatim>\<open>nullptr\<close>).
  A callback that installs another callback is outside the embedding.
\<close>

record Venue =
  program :: "Maestro list"
  stopPlaying :: bool
  looping :: bool
  internalTime :: real

type_synonym callback = "(Venue \<Rightarrow> Venue) option"

definition initialVenue :: Venue where
  "initialVenue = \<lparr>program = [], stopPlaying = False, looping = False, internalTime = - 1.0\<rparr>"

definition Venue_queueMaestro :: "Venue \<Rightarrow> Maestro \<Rightarrow> Venue" where
  "Venue_queueMaestro v song = v\<lparr>program := program v @ [song]\<rparr>"

definition Venue_clearQueue :: "Venue \<Rightarrow> Venue" where
  "Venue_clearQueue v = v\<lparr>stopPlaying := True\<rparr>"

definition Venue_toggleLoop :: "Venue \<Rightarrow> Venue" where
  "Venue_toggleLoop v = v\<lparr>looping := \<not> looping v\<rparr>"

definition callHollaback :: "callback \<Rightarrow> Venue \<Rightarrow> Venue" where
  "callHollaback hollaback v = (case hollaback of None \<Rightarrow> v | Some f \<Rightarrow> f v)"

text \<open>
  \<^verbatim>\<open>Venue::getSample\<close>, in two parts: \<open>stopRequested\<close> is its first block
  (\<^verbatim>\<open>if (true == stopPlaying)\<close>), \<open>playProgram\<close> is everything after that block.
\<close>

definition stopRequested :: "callback \<Rightarrow> Venue \<Rightarrow> Venue" where
  "stopRequested hollaback v =
     (if stopPlaying v
      then callHollaback hollaback (v\<lparr>program := [], stopPlaying := False, internalTime := - 1.0\<rparr>)
      else v)"

definition playProgram ::
  "(real \<Rightarrow> size_t) \<Rightarrow> callback \<Rightarrow> real \<Rightarrow> Venue \<Rightarrow> real \<times> Venue" where
  "playProgram hash hollaback timeDelta v =
     (if 0 = length (program v) then (0.0, v)
      else
        let v1 = (if Maestro_finished (hd (program v))
                  then (if looping v
                        then v\<lparr>program := Maestro_loop (hd (program v)) # tl (program v)\<rparr>
                        else v\<lparr>program := tl (program v)\<rparr>)\<lparr>internalTime := - 1.0\<rparr>
                  else v);
            v2 = (if 0 = length (program v1) \<and> hollaback \<noteq> None
                  then callHollaback hollaback v1 else v1)
        in if 0 = length (program v2) then (0.0, v2)
           else
             let v3 = (if - 1.0 = internalTime v2 then v2\<lparr>internalTime := 0.0\<rparr>
                       else v2\<lparr>internalTime := internalTime v2 + timeDelta\<rparr>);
                 (sample, front') = Maestro_play hash (hd (program v3)) (internalTime v3)
             in (sample, v3\<lparr>program := front' # tl (program v3)\<rparr>))"

definition Venue_getSample ::
  "(real \<Rightarrow> size_t) \<Rightarrow> callback \<Rightarrow> Venue \<Rightarrow> int \<Rightarrow> real \<Rightarrow> real \<Rightarrow> real \<times> Venue" where
  "Venue_getSample hash hollaback v unused globalTime timeDelta =
     (if 0 \<noteq> unused then (0.0, v)
      else playProgram hash hollaback timeDelta (stopRequested hollaback v))"

section \<open>The parser: \<^verbatim>\<open>StringProcessor\<close>\<close>

text \<open>One step after another, where each may throw.\<close>

definition andThen :: "error + 'a \<Rightarrow> ('a \<Rightarrow> error + 'b) \<Rightarrow> error + 'b" where
  "andThen r f = (case r of Inl e \<Rightarrow> Inl e | Inr v \<Rightarrow> f v)"

lemma andThen_simps [simp]:
  "andThen (Inl e) f = Inl e"
  "andThen (Inr v) f = f v"
  by (simp_all add: andThen_def)

lemma andThen_cong [fundef_cong]:
  "r = r' \<Longrightarrow> (\<And>v. r' = Inr v \<Longrightarrow> f v = f' v) \<Longrightarrow> andThen r f = andThen r' f'"
  by (cases r') (simp_all add: andThen_def)

lemma andThen_Inr_iff:
  "andThen r f = Inr y \<longleftrightarrow> (\<exists>v. r = Inr v \<and> f v = Inr y)"
  by (cases r) simp_all

text \<open>\<^verbatim>\<open>std::isspace\<close> and \<^verbatim>\<open>std::toupper\<close> in the "C" locale.\<close>

definition isspace :: "char \<Rightarrow> bool" where
  "isspace c \<longleftrightarrow> c \<in> {CHR '' '', CHR 0x09, CHR 0x0A, CHR 0x0B, CHR 0x0C, CHR 0x0D}"

definition toupper :: "char \<Rightarrow> char" where
  "toupper c =
     (let n = (of_char c :: nat) in if 97 \<le> n \<and> n \<le> 122 then char_of (n - 32) else c)"

definition NUL :: char where
  "NUL = CHR 0x00"

record StringProcessor =
  input :: string
  location :: nat
  peeked :: char

text \<open>
  The loop of \<^verbatim>\<open>getNextChar\<close>, from the location before the increment. The source
  compares the new location with the length before it reads \<^verbatim>\<open>input[location]\<close>; a
  location past the length is a read outside the string.
\<close>

function getNextCharLoop :: "string \<Rightarrow> nat \<Rightarrow> error + (char \<times> nat)" where
  "getNextCharLoop inp loc =
     (if loc + 1 = length inp then Inr (NUL, loc + 1)
      else if length inp < loc + 1 then Inl undefined_behaviour
      else if \<not> isspace (inp ! (loc + 1)) then Inr (toupper (inp ! (loc + 1)), loc + 1)
      else getNextCharLoop inp (loc + 1))"
  by pat_completeness auto
termination
  by (relation "measure (\<lambda>(inp, loc). length inp - loc)") auto

declare getNextCharLoop.simps [simp del]

definition StringProcessor_getNextChar ::
  "StringProcessor \<Rightarrow> error + (char \<times> StringProcessor)" where
  "StringProcessor_getNextChar cmd =
     andThen (getNextCharLoop (input cmd) (location cmd))
       (\<lambda>(result, loc). Inr (result, cmd\<lparr>location := loc\<rparr>))"

definition mkStringProcessor :: "string \<Rightarrow> error + StringProcessor" where
  "mkStringProcessor inp =
     (let cmd = \<lparr>input = inp, location = 0, peeked = NUL\<rparr>
      in if 0 \<noteq> length inp
         then (let cmd1 = cmd\<lparr>peeked := toupper (inp ! 0)\<rparr>
               in if isspace (peeked cmd1)
                  then andThen (StringProcessor_getNextChar cmd1)
                         (\<lambda>(c, cmd2). Inr (cmd2\<lparr>peeked := c\<rparr>))
                  else Inr cmd1)
         else Inr cmd)"

definition StringProcessor_done :: "StringProcessor \<Rightarrow> bool" where
  "StringProcessor_done cmd \<longleftrightarrow> location cmd = length (input cmd)"

definition StringProcessor_peek :: "StringProcessor \<Rightarrow> char" where
  "StringProcessor_peek cmd = peeked cmd"

definition StringProcessor_consume ::
  "StringProcessor \<Rightarrow> error + (char \<times> StringProcessor)" where
  "StringProcessor_consume cmd =
     (let result = peeked cmd
      in andThen (StringProcessor_getNextChar cmd)
           (\<lambda>(c, cmd'). Inr (result, cmd'\<lparr>peeked := c\<rparr>)))"

text \<open>
  What every successful read does to the processor: the input stays, the location moves
  on (\<open>advanced\<close>) or does not move back (\<open>notBefore\<close>), and it stays inside the input.
\<close>

definition advanced :: "StringProcessor \<Rightarrow> StringProcessor \<Rightarrow> bool" where
  "advanced cmd cmd' \<longleftrightarrow>
     input cmd' = input cmd \<and> location cmd < location cmd'
     \<and> location cmd' \<le> length (input cmd)"

definition notBefore :: "StringProcessor \<Rightarrow> StringProcessor \<Rightarrow> bool" where
  "notBefore cmd cmd' \<longleftrightarrow>
     input cmd' = input cmd \<and> location cmd \<le> location cmd'
     \<and> (location cmd \<le> length (input cmd) \<longrightarrow> location cmd' \<le> length (input cmd))"

lemma getNextCharLoop_progress:
  "getNextCharLoop inp loc = Inr (c, loc') \<Longrightarrow> loc < loc' \<and> loc' \<le> length inp"
proof (induction inp loc rule: getNextCharLoop.induct)
  case (1 inp loc)
  show ?case
  proof (cases "loc + 1 \<noteq> length inp \<and> \<not> length inp < loc + 1 \<and> isspace (inp ! (loc + 1))")
    case True
    then have "getNextCharLoop inp loc = getNextCharLoop inp (loc + 1)"
      by (subst getNextCharLoop.simps) simp
    with "1.prems" have "getNextCharLoop inp (loc + 1) = Inr (c, loc')"
      by simp
    with "1.IH" True have "loc + 1 < loc' \<and> loc' \<le> length inp"
      by auto
    then show ?thesis by simp
  next
    case False
    with "1.prems" show ?thesis
      by (subst (asm) getNextCharLoop.simps) (auto split: if_splits)
  qed
qed

lemma getNextChar_advanced:
  "StringProcessor_getNextChar cmd = Inr (c, cmd') \<Longrightarrow> advanced cmd cmd'"
  by (auto simp add: StringProcessor_getNextChar_def advanced_def andThen_Inr_iff
      dest: getNextCharLoop_progress)

lemma consume_advanced:
  "StringProcessor_consume cmd = Inr (c, cmd') \<Longrightarrow> advanced cmd cmd'"
  by (auto simp add: StringProcessor_consume_def andThen_Inr_iff advanced_def
      dest!: getNextChar_advanced)

lemma advanced_notBefore: "advanced cmd cmd' \<Longrightarrow> notBefore cmd cmd'"
  by (auto simp add: advanced_def notBefore_def)

lemma notBefore_refl [simp]: "notBefore cmd cmd"
  by (simp add: notBefore_def)

lemma advanced_trans1: "advanced a b \<Longrightarrow> notBefore b c \<Longrightarrow> advanced a c"
  by (auto simp add: advanced_def notBefore_def)

lemma advanced_trans2: "notBefore a b \<Longrightarrow> advanced b c \<Longrightarrow> advanced a c"
  by (auto simp add: advanced_def notBefore_def)

lemma notBefore_trans: "notBefore a b \<Longrightarrow> notBefore b c \<Longrightarrow> notBefore a c"
  by (auto simp add: notBefore_def)

lemma advanced_measure:
  "advanced cmd cmd' \<Longrightarrow>
   length (input cmd') - location cmd' < length (input cmd) - location cmd"
  by (auto simp add: advanced_def)

text \<open>
  \<^verbatim>\<open>getNumber\<close>. The number is a 32-bit \<^verbatim>\<open>int\<close>: a digit that takes it past
  \<^verbatim>\<open>INT_MAX\<close> is a signed overflow, which C++ leaves undefined.
\<close>

definition INT_MAX :: int where
  "INT_MAX = 2147483647"

definition isdigit :: "char \<Rightarrow> bool" where
  "isdigit c \<longleftrightarrow> c \<in> set ''0123456789''"

function getNumberLoop ::
  "StringProcessor \<Rightarrow> int \<Rightarrow> bool \<Rightarrow> error + (int \<times> StringProcessor)" where
  "getNumberLoop cmd number firstChar =
     (if isdigit (StringProcessor_peek cmd)
      then andThen (StringProcessor_consume cmd)
             (\<lambda>(c, cmd').
                if INT_MAX < number * 10 + (of_char c - of_char (CHR ''0''))
                then Inl undefined_behaviour
                else getNumberLoop cmd' (number * 10 + (of_char c - of_char (CHR ''0''))) False)
      else if firstChar then Inl (invalid_argument ''Command requires value, none given.'')
      else Inr (number, cmd))"
  by pat_completeness auto
termination
  by (relation "measure (\<lambda>(cmd, number, firstChar). length (input cmd) - location cmd)")
     (auto dest: consume_advanced advanced_measure)

declare getNumberLoop.simps [simp del]

definition StringProcessor_getNumber ::
  "StringProcessor \<Rightarrow> error + (int \<times> StringProcessor)" where
  "StringProcessor_getNumber cmd = getNumberLoop cmd 0 True"

lemma getNumberLoop_notBefore:
  "getNumberLoop cmd number firstChar = Inr (n, cmd') \<Longrightarrow>
   notBefore cmd cmd' \<and> (firstChar \<longrightarrow> advanced cmd cmd')"
proof (induction cmd number firstChar rule: getNumberLoop.induct)
  case (1 cmd number firstChar)
  show ?case
  proof (cases "isdigit (StringProcessor_peek cmd)")
    case True
    from "1.prems" True obtain c cmd1 where
      c: "StringProcessor_consume cmd = Inr (c, cmd1)" and
      ok: "\<not> INT_MAX < number * 10 + (of_char c - of_char (CHR ''0''))" and
      rest: "getNumberLoop cmd1 (number * 10 + (of_char c - of_char (CHR ''0''))) False
             = Inr (n, cmd')"
      by (subst (asm) getNumberLoop.simps) (auto simp add: andThen_Inr_iff split: if_splits)
    have "notBefore cmd1 cmd'"
      using "1.IH" [OF True c refl ok rest] by simp
    with consume_advanced [OF c] have "advanced cmd cmd'"
      by (rule advanced_trans1)
    then show ?thesis by (simp add: advanced_notBefore)
  next
    case False
    with "1.prems" show ?thesis
      by (subst (asm) getNumberLoop.simps) (auto split: if_splits)
  qed
qed

lemma getNumber_advanced:
  "StringProcessor_getNumber cmd = Inr (n, cmd') \<Longrightarrow> advanced cmd cmd'"
  by (auto simp add: StringProcessor_getNumber_def dest: getNumberLoop_notBefore)

section \<open>The parser: \<^verbatim>\<open>buildVoiceFromString\<close>\<close>

definition apostrophe :: char where
  "apostrophe = CHR 0x27"

text \<open>The array \<^verbatim>\<open>map\<close> of the parser, from the letters A to G to semitones.\<close>

definition noteMap :: "int list" where
  "noteMap = [9, 11, 0, 2, 4, 5, 7]"

text \<open>\<^verbatim>\<open>pitches[i]\<close>; an index outside the vector is undefined in C++.\<close>

definition pitchAt :: "real list \<Rightarrow> int \<Rightarrow> error + real" where
  "pitchAt pitches i =
     (if 0 \<le> i \<and> i < int (length pitches) then Inr (pitches ! nat i)
      else Inl undefined_behaviour)"

text \<open>The loop over the dots of a rest (\<^verbatim>\<open>case 'P'\<close>, \<^verbatim>\<open>case 'R'\<close>).\<close>

function restDotsLoop ::
  "real \<Rightarrow> real \<Rightarrow> StringProcessor \<Rightarrow> error + (real \<times> StringProcessor)" where
  "restDotsLoop tempLength nextDot cmd =
     (if CHR ''.'' = StringProcessor_peek cmd
      then andThen (StringProcessor_consume cmd)
             (\<lambda>(c, cmd'). restDotsLoop (tempLength + nextDot) (nextDot * 0.5) cmd')
      else Inr (tempLength, cmd))"
  by pat_completeness auto
termination
  by (relation "measure (\<lambda>(tempLength, nextDot, cmd). length (input cmd) - location cmd)")
     (auto dest: consume_advanced advanced_measure)

declare restDotsLoop.simps [simp del]

text \<open>
  The variables of a note command (\<^verbatim>\<open>case 'A'\<close> to \<^verbatim>\<open>case 'G'\<close>); \<open>l_note\<close> is the
  variable \<^verbatim>\<open>note\<close>.
\<close>

record NoteLocals =
  l_note :: int
  tempDuration :: real
  tempLength :: real
  tempVolume :: real
  modifiers :: bool
  advance :: bool
  nextDot :: real

text \<open>The \<^verbatim>\<open>switch\<close> inside \<^verbatim>\<open>while (true == modifiers)\<close>, and the loop.\<close>

definition modifierSwitch ::
  "int \<Rightarrow> NoteLocals \<Rightarrow> StringProcessor \<Rightarrow> error + (NoteLocals \<times> StringProcessor)" where
  "modifierSwitch tempo nl cmd =
     (if StringProcessor_peek cmd = CHR ''+'' \<or> StringProcessor_peek cmd = CHR ''#''
      then andThen (StringProcessor_consume cmd)
             (\<lambda>(c, cmd').
                if int totalNotes = l_note nl + 1
                then Inl (invalid_argument ''Tried to sharp the highest note.'')
                else Inr (nl\<lparr>l_note := l_note nl + 1\<rparr>, cmd'))
      else if StringProcessor_peek cmd = CHR ''-''
      then andThen (StringProcessor_consume cmd)
             (\<lambda>(c, cmd').
                if - 1 = l_note nl - 1
                then Inl (invalid_argument ''Tried to flat the lowest note.'')
                else Inr (nl\<lparr>l_note := l_note nl - 1\<rparr>, cmd'))
      else if StringProcessor_peek cmd = CHR ''.''
      then andThen (StringProcessor_consume cmd)
             (\<lambda>(c, cmd').
                Inr (nl\<lparr>tempLength := tempLength nl + nextDot nl, nextDot := nextDot nl * 0.5\<rparr>,
                     cmd'))
      else if StringProcessor_peek cmd \<in> set ''123456789''
      then andThen (StringProcessor_getNumber cmd)
             (\<lambda>(len, cmd').
                if len < 1 \<or> len > 64 then Inl (invalid_argument ''Invalid note length.'')
                else Inr (nl\<lparr>tempLength := 240.0 / real_of_int (len * tempo),
                              nextDot := 240.0 / real_of_int (len * tempo) * 0.5\<rparr>,
                          cmd'))
      else if StringProcessor_peek cmd = CHR ''_''
      then andThen (StringProcessor_consume cmd)
             (\<lambda>(c, cmd'). Inr (nl\<lparr>tempDuration := 1.0\<rparr>, cmd'))
      else if StringProcessor_peek cmd = apostrophe
      then andThen (StringProcessor_consume cmd)
             (\<lambda>(c, cmd'). Inr (nl\<lparr>tempDuration := 3.0 / 4.0\<rparr>, cmd'))
      else if StringProcessor_peek cmd = CHR ''^''
      then andThen (StringProcessor_consume cmd)
             (\<lambda>(c, cmd'). Inr (nl\<lparr>tempVolume := min (tempVolume nl + 0.125) 1.0\<rparr>, cmd'))
      else if StringProcessor_peek cmd = CHR '',''
      then andThen (StringProcessor_consume cmd)
             (\<lambda>(c, cmd'). Inr (nl\<lparr>modifiers := False, advance := False\<rparr>, cmd'))
      else Inr (nl\<lparr>modifiers := False\<rparr>, cmd))"

lemma andThen_pair_Inr:
  "andThen r (\<lambda>(a, b). f a b) = Inr y \<longleftrightarrow> (\<exists>a b. r = Inr (a, b) \<and> f a b = Inr y)"
  by (cases r) auto

lemma modifierSwitch_progress:
  "modifierSwitch tempo nl cmd = Inr (nl', cmd') \<Longrightarrow>
   advanced cmd cmd' \<or> (cmd' = cmd \<and> \<not> modifiers nl')"
  by (auto simp add: modifierSwitch_def andThen_pair_Inr split: if_splits
      dest: consume_advanced getNumber_advanced)

function modifiersLoop ::
  "int \<Rightarrow> NoteLocals \<Rightarrow> StringProcessor \<Rightarrow> error + (NoteLocals \<times> StringProcessor)" where
  "modifiersLoop tempo nl cmd =
     (if modifiers nl
      then andThen (modifierSwitch tempo nl cmd) (\<lambda>(nl', cmd'). modifiersLoop tempo nl' cmd')
      else Inr (nl, cmd))"
  by pat_completeness auto
termination
  by (relation "measures [\<lambda>(tempo, nl, cmd). length (input cmd) - location cmd,
                          \<lambda>(tempo, nl, cmd). if modifiers nl then 1 else 0]")
     (auto dest!: modifierSwitch_progress dest: advanced_measure)

declare modifiersLoop.simps [simp del]

text \<open>
  The variables of \<^verbatim>\<open>buildVoiceFromString\<close>. Four carry the prefix \<open>l_\<close>, since the
  members of \<^verbatim>\<open>Note\<close> and \<^verbatim>\<open>Voice\<close> have their names: \<^verbatim>\<open>volume\<close>, \<^verbatim>\<open>time\<close>,
  \<^verbatim>\<open>notes\<close> and \<^verbatim>\<open>instrument\<close>.
\<close>

record Locals =
  currentOctave :: int
  currentBeatNote :: int
  currentTempo :: int
  articulation :: real
  noteLength :: real
  l_volume :: real
  l_time :: real
  l_notes :: "Note list"
  l_instrument :: Instrument
  command :: StringProcessor

type_synonym instruments = "char \<Rightarrow> Instrument option"

text \<open>\<^verbatim>\<open>case 'A'\<close> to \<^verbatim>\<open>case 'G'\<close>.\<close>

definition commandNote :: "real list \<Rightarrow> Locals \<Rightarrow> error + Locals" where
  "commandNote pitches st =
     andThen (StringProcessor_consume (command st))
       (\<lambda>(c, cmd1).
          andThen
            (modifiersLoop (currentTempo st)
               \<lparr>l_note = currentOctave st * int notesPerOctave
                          + noteMap ! (of_char c - of_char (CHR ''A'')),
                tempDuration = articulation st,
                tempLength = noteLength st,
                tempVolume = l_volume st,
                modifiers = True,
                advance = True,
                nextDot = noteLength st * 0.5\<rparr>
               cmd1)
            (\<lambda>(nl, cmd2).
               andThen (pitchAt pitches (l_note nl))
                 (\<lambda>pitch.
                    Inr (st\<lparr>l_notes :=
                               l_notes st
                               @ [mkNote (l_instrument st) pitch (l_time st)
                                    (tempLength nl * tempDuration nl) (tempVolume nl)],
                             l_time :=
                               (if advance nl then l_time st + tempLength nl else l_time st),
                             command := cmd2\<rparr>))))"

text \<open>\<^verbatim>\<open>case '>'\<close> and \<^verbatim>\<open>case '<'\<close>.\<close>

definition commandOctaveUp :: "Locals \<Rightarrow> error + Locals" where
  "commandOctaveUp st =
     andThen (StringProcessor_consume (command st))
       (\<lambda>(c, cmd1).
          if int octavesImplemented = currentOctave st + 1
          then Inl (invalid_argument
                      (''Operation '' @ [apostrophe] @ ''>'' @ [apostrophe]
                       @ '' exceeded octave range.''))
          else Inr (st\<lparr>currentOctave := currentOctave st + 1, command := cmd1\<rparr>))"

definition commandOctaveDown :: "Locals \<Rightarrow> error + Locals" where
  "commandOctaveDown st =
     andThen (StringProcessor_consume (command st))
       (\<lambda>(c, cmd1).
          if - 1 = currentOctave st - 1
          then Inl (invalid_argument
                      (''Operation '' @ [apostrophe] @ ''<'' @ [apostrophe]
                       @ '' exceeded octave range.''))
          else Inr (st\<lparr>currentOctave := currentOctave st - 1, command := cmd1\<rparr>))"

text \<open>\<^verbatim>\<open>case 'T'\<close>, \<^verbatim>\<open>case 'L'\<close> and \<^verbatim>\<open>case 'O'\<close>.\<close>

definition commandT :: "Locals \<Rightarrow> error + Locals" where
  "commandT st =
     andThen (StringProcessor_consume (command st))
       (\<lambda>(c, cmd1).
          andThen (StringProcessor_getNumber cmd1)
            (\<lambda>(n, cmd2).
               if n < 16 \<or> n > 256
               then Inl (invalid_argument ''Asked to play music either too slow or too fast.'')
               else Inr (st\<lparr>currentTempo := n,
                            noteLength := 240.0 / real_of_int (currentBeatNote st * n),
                            command := cmd2\<rparr>)))"

definition commandL :: "Locals \<Rightarrow> error + Locals" where
  "commandL st =
     andThen (StringProcessor_consume (command st))
       (\<lambda>(c, cmd1).
          andThen (StringProcessor_getNumber cmd1)
            (\<lambda>(n, cmd2).
               if n < 1 \<or> n > 64 then Inl (invalid_argument ''Invalid note length.'')
               else Inr (st\<lparr>currentBeatNote := n,
                            noteLength := 240.0 / real_of_int (n * currentTempo st),
                            command := cmd2\<rparr>)))"

definition commandO :: "Locals \<Rightarrow> error + Locals" where
  "commandO st =
     andThen (StringProcessor_consume (command st))
       (\<lambda>(c, cmd1).
          andThen (StringProcessor_getNumber cmd1)
            (\<lambda>(n, cmd2).
               if int octavesImplemented \<le> n
               then Inl (invalid_argument ''Set current octave too high.'')
               else Inr (st\<lparr>currentOctave := n, command := cmd2\<rparr>)))"

text \<open>\<^verbatim>\<open>case 'N'\<close>.\<close>

definition commandN :: "real list \<Rightarrow> Locals \<Rightarrow> error + Locals" where
  "commandN pitches st =
     andThen (StringProcessor_consume (command st))
       (\<lambda>(c, cmd1).
          andThen (StringProcessor_getNumber cmd1)
            (\<lambda>(n, cmd2).
               if n > int totalNotes then Inl (invalid_argument ''Invalid note number.'')
               else if 0 \<noteq> n
               then andThen (pitchAt pitches (n - 1))
                      (\<lambda>pitch.
                         Inr (st\<lparr>l_notes :=
                                    l_notes st
                                    @ [mkNote (l_instrument st) pitch (l_time st)
                                         (noteLength st * articulation st) (l_volume st)],
                                  l_time := l_time st + noteLength st,
                                  command := cmd2\<rparr>))
               else Inr (st\<lparr>l_time := l_time st + noteLength st, command := cmd2\<rparr>)))"

text \<open>\<^verbatim>\<open>case 'P'\<close> and \<^verbatim>\<open>case 'R'\<close>.\<close>

definition commandRest :: "Locals \<Rightarrow> error + Locals" where
  "commandRest st =
     andThen (StringProcessor_consume (command st))
       (\<lambda>(c, cmd1).
          andThen
            (if (48 :: nat) \<le> of_char (StringProcessor_peek cmd1)
                \<and> of_char (StringProcessor_peek cmd1) \<le> (57 :: nat)
             then andThen (StringProcessor_getNumber cmd1)
                    (\<lambda>(len, cmd2).
                       if len < 1 \<or> len > 64 then Inl (invalid_argument ''Invalid note length.'')
                       else Inr (240.0 / real_of_int (len * currentTempo st), cmd2))
             else Inr (noteLength st, cmd1))
            (\<lambda>(len, cmd3).
               andThen (restDotsLoop len (len * 0.5) cmd3)
                 (\<lambda>(len', cmd4). Inr (st\<lparr>l_time := l_time st + len', command := cmd4\<rparr>))))"

text \<open>\<^verbatim>\<open>case 'M'\<close>.\<close>

definition commandM :: "Locals \<Rightarrow> error + Locals" where
  "commandM st =
     andThen (StringProcessor_consume (command st))
       (\<lambda>(c, cmd1).
          if StringProcessor_peek cmd1 = CHR ''F'' \<or> StringProcessor_peek cmd1 = CHR ''B''
          then andThen (StringProcessor_consume cmd1) (\<lambda>(c', cmd2). Inr (st\<lparr>command := cmd2\<rparr>))
          else if StringProcessor_peek cmd1 = CHR ''L''
          then andThen (StringProcessor_consume cmd1)
                 (\<lambda>(c', cmd2). Inr (st\<lparr>articulation := 1.0, command := cmd2\<rparr>))
          else if StringProcessor_peek cmd1 = CHR ''N''
          then andThen (StringProcessor_consume cmd1)
                 (\<lambda>(c', cmd2). Inr (st\<lparr>articulation := 7.0 / 8.0, command := cmd2\<rparr>))
          else if StringProcessor_peek cmd1 = CHR ''S''
          then andThen (StringProcessor_consume cmd1)
                 (\<lambda>(c', cmd2). Inr (st\<lparr>articulation := 3.0 / 4.0, command := cmd2\<rparr>))
          else Inl (invalid_argument
                      (''Did not understand music ('' @ [apostrophe] @ ''M'' @ [apostrophe]
                       @ '') command component '' @ [apostrophe]
                       @ [StringProcessor_peek cmd1] @ [apostrophe] @ ''.'')))"

text \<open>\<^verbatim>\<open>case 'I'\<close>. Reading \<^verbatim>\<open>->second\<close> of a key that is not in the map is undefined.\<close>

definition commandI :: "instruments \<Rightarrow> Locals \<Rightarrow> error + Locals" where
  "commandI instrs st =
     andThen (StringProcessor_consume (command st))
       (\<lambda>(c, cmd1).
          if StringProcessor_peek cmd1 = CHR ''Q''
          then andThen (StringProcessor_consume cmd1)
                 (\<lambda>(c', cmd2).
                    Inr (st\<lparr>l_instrument := makeSquareWaveInstrument, command := cmd2\<rparr>))
          else if StringProcessor_peek cmd1 = CHR ''T''
          then andThen (StringProcessor_consume cmd1)
                 (\<lambda>(c', cmd2).
                    Inr (st\<lparr>l_instrument := makeTriangularWaveInstrument, command := cmd2\<rparr>))
          else if StringProcessor_peek cmd1 = CHR ''S''
          then andThen (StringProcessor_consume cmd1)
                 (\<lambda>(c', cmd2).
                    Inr (st\<lparr>l_instrument := makeSineWaveInstrument, command := cmd2\<rparr>))
          else if StringProcessor_peek cmd1 = CHR ''W''
          then andThen (StringProcessor_consume cmd1)
                 (\<lambda>(c', cmd2).
                    Inr (st\<lparr>l_instrument := makeSawWaveInstrument, command := cmd2\<rparr>))
          else if StringProcessor_peek cmd1 = CHR ''N''
          then andThen (StringProcessor_consume cmd1)
                 (\<lambda>(c', cmd2).
                    Inr (st\<lparr>l_instrument := makeNoiseInstrument, command := cmd2\<rparr>))
          else if StringProcessor_peek cmd1 = CHR ''X''
          then andThen (StringProcessor_consume cmd1)
                 (\<lambda>(c', cmd2).
                    if instrs (StringProcessor_peek cmd2) = None
                    then Inl (invalid_argument ''Invalid instrument.'')
                    else andThen (StringProcessor_consume cmd2)
                           (\<lambda>(key, cmd3).
                              case instrs key of
                                None \<Rightarrow> Inl undefined_behaviour
                              | Some i \<Rightarrow> Inr (st\<lparr>l_instrument := i, command := cmd3\<rparr>)))
          else if StringProcessor_peek cmd1 = CHR ''P''
          then andThen (StringProcessor_consume cmd1)
                 (\<lambda>(c', cmd2).
                    andThen (StringProcessor_getNumber cmd2)
                      (\<lambda>(dutyCycle, cmd3).
                         if dutyCycle < 1 \<or> dutyCycle > 99
                         then Inl (invalid_argument
                                     ''Invalid duty cycle for a rectangular wave.'')
                         else Inr (st\<lparr>l_instrument :=
                                          makeRectangularWaveInstrument
                                            (real_of_int dutyCycle / 100.0),
                                      command := cmd3\<rparr>)))
          else Inl (invalid_argument ''Invalid instrument.''))"

text \<open>
  \<^verbatim>\<open>case 'V'\<close>. \<open>optionalSemicolon\<close> is the \<^verbatim>\<open>if (';' == command.peek())\<close> that ends
  three of its branches.
\<close>

definition optionalSemicolon :: "Locals \<Rightarrow> StringProcessor \<Rightarrow> error + Locals" where
  "optionalSemicolon st cmd =
     (if CHR '';'' = StringProcessor_peek cmd
      then andThen (StringProcessor_consume cmd) (\<lambda>(c, cmd'). Inr (st\<lparr>command := cmd'\<rparr>))
      else Inr (st\<lparr>command := cmd\<rparr>))"

definition commandV :: "Locals \<Rightarrow> error + Locals" where
  "commandV st =
     andThen (StringProcessor_consume (command st))
       (\<lambda>(c, cmd1).
          if isdigit (StringProcessor_peek cmd1)
          then andThen (StringProcessor_getNumber cmd1)
                 (\<lambda>(newVolume, cmd2).
                    if 100 < newVolume then Inl (invalid_argument ''Invalid volume.'')
                    else Inr (st\<lparr>l_volume := real_of_int newVolume / 100.0, command := cmd2\<rparr>))
          else if StringProcessor_peek cmd1 = CHR ''P''
          then andThen (StringProcessor_consume cmd1)
                 (\<lambda>(c1, cmd2).
                    if CHR ''P'' = StringProcessor_peek cmd2
                    then andThen (StringProcessor_consume cmd2)
                           (\<lambda>(c2, cmd3).
                              if CHR ''P'' = StringProcessor_peek cmd3
                              then andThen (StringProcessor_consume cmd3)
                                     (\<lambda>(c3, cmd4).
                                        optionalSemicolon (st\<lparr>l_volume := 0.125\<rparr>) cmd4)
                              else optionalSemicolon (st\<lparr>l_volume := 0.25\<rparr>) cmd3)
                    else optionalSemicolon (st\<lparr>l_volume := 0.375\<rparr>) cmd2)
          else if StringProcessor_peek cmd1 = CHR ''M''
          then andThen (StringProcessor_consume cmd1)
                 (\<lambda>(c1, cmd2).
                    if CHR ''P'' = StringProcessor_peek cmd2
                    then andThen (StringProcessor_consume cmd2)
                           (\<lambda>(c2, cmd3). optionalSemicolon (st\<lparr>l_volume := 0.5\<rparr>) cmd3)
                    else if CHR ''F'' = StringProcessor_peek cmd2
                    then andThen (StringProcessor_consume cmd2)
                           (\<lambda>(c2, cmd3). optionalSemicolon (st\<lparr>l_volume := 0.625\<rparr>) cmd3)
                    else Inl (invalid_argument
                                (''Invalid volume specification: mezzo-I-don'' @ [apostrophe]
                                 @ ''t-know.'')))
          else if StringProcessor_peek cmd1 = CHR ''F''
          then andThen (StringProcessor_consume cmd1)
                 (\<lambda>(c1, cmd2).
                    if CHR ''F'' \<noteq> StringProcessor_peek cmd2
                    then optionalSemicolon (st\<lparr>l_volume := 0.75\<rparr>) cmd2
                    else andThen (StringProcessor_consume cmd2)
                           (\<lambda>(c2, cmd3).
                              if CHR ''F'' \<noteq> StringProcessor_peek cmd3
                              then optionalSemicolon (st\<lparr>l_volume := 0.875\<rparr>) cmd3
                              else andThen (StringProcessor_consume cmd3)
                                     (\<lambda>(c3, cmd4).
                                        optionalSemicolon (st\<lparr>l_volume := 1.0\<rparr>) cmd4)))
          else Inl (invalid_argument ''Invalid volume specification.''))"

text \<open>The characters that the \<^verbatim>\<open>switch\<close> of the command loop names.\<close>

definition commandChars :: "char set" where
  "commandChars = set ''ABCDEFG><TLONPRMIV''"

text \<open>One round of the \<^verbatim>\<open>while (false == command.done())\<close> loop: the \<^verbatim>\<open>switch\<close>.\<close>

definition parseCommand :: "instruments \<Rightarrow> real list \<Rightarrow> Locals \<Rightarrow> error + Locals" where
  "parseCommand instrs pitches st =
     (let c = StringProcessor_peek (command st)
      in if c \<in> set ''ABCDEFG'' then commandNote pitches st
         else if c = CHR ''>'' then commandOctaveUp st
         else if c = CHR ''<'' then commandOctaveDown st
         else if c = CHR ''T'' then commandT st
         else if c = CHR ''L'' then commandL st
         else if c = CHR ''O'' then commandO st
         else if c = CHR ''N'' then commandN pitches st
         else if c = CHR ''P'' \<or> c = CHR ''R'' then commandRest st
         else if c = CHR ''M'' then commandM st
         else if c = CHR ''I'' then commandI instrs st
         else if c = CHR ''V'' then commandV st
         else Inl (invalid_argument
                     (''Did not understand command component '' @ [apostrophe] @ [c]
                      @ [apostrophe] @ ''.'')))"

lemma restDotsLoop_notBefore:
  "restDotsLoop len dot cmd = Inr (r, cmd') \<Longrightarrow> notBefore cmd cmd'"
proof (induction len dot cmd rule: restDotsLoop.induct)
  case (1 len dot cmd)
  show ?case
  proof (cases "CHR ''.'' = StringProcessor_peek cmd")
    case True
    from "1.prems" True obtain c cmd1 where
      c: "StringProcessor_consume cmd = Inr (c, cmd1)" and
      rest: "restDotsLoop (len + dot) (dot * 0.5) cmd1 = Inr (r, cmd')"
      by (subst (asm) restDotsLoop.simps) (auto simp add: andThen_pair_Inr)
    from "1.IH" [OF True c refl rest] consume_advanced [OF c] show ?thesis
      by (blast intro: advanced_notBefore advanced_trans1)
  next
    case False
    with "1.prems" show ?thesis
      by (subst (asm) restDotsLoop.simps) simp
  qed
qed

lemma modifiersLoop_notBefore:
  "modifiersLoop tempo nl cmd = Inr (nl', cmd') \<Longrightarrow> notBefore cmd cmd'"
proof (induction tempo nl cmd rule: modifiersLoop.induct)
  case (1 tempo nl cmd)
  show ?case
  proof (cases "modifiers nl")
    case True
    from "1.prems" True obtain nl1 cmd1 where
      step: "modifierSwitch tempo nl cmd = Inr (nl1, cmd1)" and
      rest: "modifiersLoop tempo nl1 cmd1 = Inr (nl', cmd')"
      by (subst (asm) modifiersLoop.simps) (auto simp add: andThen_pair_Inr)
    have "notBefore cmd cmd1"
      using modifierSwitch_progress [OF step] by (auto intro: advanced_notBefore)
    moreover have "notBefore cmd1 cmd'"
      using "1.IH" [OF True step refl rest] .
    ultimately show ?thesis by (rule notBefore_trans)
  next
    case False
    with "1.prems" show ?thesis
      by (subst (asm) modifiersLoop.simps) simp
  qed
qed

lemma optionalSemicolon_notBefore:
  "optionalSemicolon st cmd = Inr st' \<Longrightarrow> notBefore cmd (command st')"
  by (auto simp add: optionalSemicolon_def andThen_pair_Inr advanced_def notBefore_def split: if_splits
      dest!: consume_advanced)

lemma commandNote_advanced:
  "commandNote pitches st = Inr st' \<Longrightarrow> advanced (command st) (command st')"
  by (auto simp add: commandNote_def andThen_pair_Inr advanced_def notBefore_def andThen_Inr_iff
      dest!: consume_advanced modifiersLoop_notBefore)

lemma commandOctaveUp_advanced:
  "commandOctaveUp st = Inr st' \<Longrightarrow> advanced (command st) (command st')"
  by (auto simp add: commandOctaveUp_def andThen_pair_Inr advanced_def notBefore_def split: if_splits
      dest!: consume_advanced)

lemma commandOctaveDown_advanced:
  "commandOctaveDown st = Inr st' \<Longrightarrow> advanced (command st) (command st')"
  by (auto simp add: commandOctaveDown_def andThen_pair_Inr advanced_def notBefore_def split: if_splits
      dest!: consume_advanced)

lemma commandT_advanced:
  "commandT st = Inr st' \<Longrightarrow> advanced (command st) (command st')"
  by (auto simp add: commandT_def andThen_pair_Inr advanced_def notBefore_def split: if_splits
      dest!: consume_advanced getNumber_advanced)

lemma commandL_advanced:
  "commandL st = Inr st' \<Longrightarrow> advanced (command st) (command st')"
  by (auto simp add: commandL_def andThen_pair_Inr advanced_def notBefore_def split: if_splits
      dest!: consume_advanced getNumber_advanced)

lemma commandO_advanced:
  "commandO st = Inr st' \<Longrightarrow> advanced (command st) (command st')"
  by (auto simp add: commandO_def andThen_pair_Inr advanced_def notBefore_def split: if_splits
      dest!: consume_advanced getNumber_advanced)

lemma commandN_advanced:
  "commandN pitches st = Inr st' \<Longrightarrow> advanced (command st) (command st')"
  by (auto simp add: commandN_def andThen_pair_Inr advanced_def notBefore_def andThen_Inr_iff split: if_splits
      dest!: consume_advanced getNumber_advanced)

lemma commandRest_advanced:
  "commandRest st = Inr st' \<Longrightarrow> advanced (command st) (command st')"
  by (auto simp add: commandRest_def andThen_pair_Inr advanced_def notBefore_def split: if_splits
      dest!: consume_advanced getNumber_advanced restDotsLoop_notBefore)

lemma commandM_advanced:
  "commandM st = Inr st' \<Longrightarrow> advanced (command st) (command st')"
  by (auto simp add: commandM_def andThen_pair_Inr advanced_def notBefore_def split: if_splits
      dest!: consume_advanced)

lemma commandI_advanced:
  "commandI instrs st = Inr st' \<Longrightarrow> advanced (command st) (command st')"
  by (auto simp add: commandI_def andThen_pair_Inr advanced_def notBefore_def split: if_splits option.splits
      dest!: consume_advanced getNumber_advanced)

lemma commandV_advanced:
  "commandV st = Inr st' \<Longrightarrow> advanced (command st) (command st')"
  by (auto simp add: commandV_def andThen_pair_Inr advanced_def notBefore_def split: if_splits
      dest!: consume_advanced getNumber_advanced optionalSemicolon_notBefore)

lemma parseCommand_advanced:
  "parseCommand instrs pitches st = Inr st' \<Longrightarrow> advanced (command st) (command st')"
  unfolding parseCommand_def Let_def
  by (auto split: if_splits
      dest: commandNote_advanced commandOctaveUp_advanced commandOctaveDown_advanced
        commandT_advanced commandL_advanced commandO_advanced commandN_advanced
        commandRest_advanced commandM_advanced commandI_advanced commandV_advanced)

text \<open>The loop \<^verbatim>\<open>while (false == command.done())\<close>.\<close>

function parseLoop :: "instruments \<Rightarrow> real list \<Rightarrow> Locals \<Rightarrow> error + Locals" where
  "parseLoop instrs pitches st =
     (if \<not> StringProcessor_done (command st)
      then andThen (parseCommand instrs pitches st) (parseLoop instrs pitches)
      else Inr st)"
  by pat_completeness auto
termination
  by (relation "measure (\<lambda>(instrs, pitches, st).
                  length (input (command st)) - location (command st))")
     (auto dest!: parseCommand_advanced dest: advanced_measure)

declare parseLoop.simps [simp del]

text \<open>
  \<^verbatim>\<open>buildVoiceFromString\<close>. \<open>initialLocals\<close> are its variables before the loop,
  with the default instrument and the processor of the line. \<open>parseLine\<close> is the function
  up to its last statement and gives the variables as the loop leaves them; the last
  statement makes the \<^verbatim>\<open>Voice\<close> of the notes.
\<close>

definition initialLocals :: "Instrument \<Rightarrow> StringProcessor \<Rightarrow> Locals" where
  "initialLocals i cmd =
     \<lparr>currentOctave = 4,
      currentBeatNote = 4,
      currentTempo = 120,
      articulation = 7.0 / 8.0,
      noteLength = 240.0 / real_of_int (4 * 120),
      l_volume = 0.5,
      l_time = 0.0,
      l_notes = [],
      l_instrument = i,
      command = cmd\<rparr>"

definition parseLine :: "string \<Rightarrow> instruments \<Rightarrow> real list \<Rightarrow> error + Locals" where
  "parseLine inp instrs pitches =
     (if int totalNotes \<noteq> int (length pitches)
      then Inl (invalid_argument ''Note array of invalid size.'')
      else case instrs NUL of
             None \<Rightarrow> Inl (invalid_argument ''No default instrument in instrument list.'')
           | Some i \<Rightarrow>
               andThen (mkStringProcessor inp)
                 (\<lambda>cmd. parseLoop instrs pitches (initialLocals i cmd)))"

definition buildVoiceFromString :: "string \<Rightarrow> instruments \<Rightarrow> real list \<Rightarrow> error + Voice" where
  "buildVoiceFromString inp instrs pitches =
     andThen (parseLine inp instrs pitches) (\<lambda>st. Inr (mkVoice (l_notes st)))"

definition makeDefaultInstrument :: instruments where
  "makeDefaultInstrument = Map.empty(NUL \<mapsto> makeSquareWaveInstrument)"

definition getDefaultInstrument :: instruments where
  "getDefaultInstrument = makeDefaultInstrument"

text \<open>
  The constructor \<^verbatim>\<open>Maestro(music, instruments)\<close>: its loop over the lines, with the
  choir built so far. An empty voice is thrown out.
\<close>

fun maestroLoop :: "string list \<Rightarrow> instruments \<Rightarrow> Voice list \<Rightarrow> error + Voice list" where
  "maestroLoop [] instrs choir' = Inr choir'"
| "maestroLoop (voice # music) instrs choir' =
     andThen (buildVoiceFromString voice instrs getStandardTwelveToneEqualNotes)
       (\<lambda>v. maestroLoop music instrs (if Voice_finished v then choir' else choir' @ [v]))"

definition mkMaestro :: "string list \<Rightarrow> instruments \<Rightarrow> error + Maestro" where
  "mkMaestro music instrs =
     andThen (maestroLoop music instrs []) (\<lambda>choir'. Inr \<lparr>choir = choir'\<rparr>)"

text \<open>
  \<^verbatim>\<open>Venue::queueMusic(music, instruments)\<close>: \<^verbatim>\<open>program.emplace_back\<close> leaves the list
  as it was when the constructor of the element throws.
\<close>

definition Venue_queueMusic :: "Venue \<Rightarrow> string list \<Rightarrow> instruments \<Rightarrow> error + Venue" where
  "Venue_queueMusic v music instrs =
     andThen (mkMaestro music instrs) (\<lambda>song. Inr (v\<lparr>program := program v @ [song]\<rparr>))"

section \<open>Notions of the statements\<close>

text \<open>
  The gain that the specification describes for a note released during the attack: the
  value the attack had reached at \<open>releaseTime\<close>, times the release ramp.
\<close>

definition releaseFromSnapshot :: "real \<Rightarrow> real \<Rightarrow> real \<Rightarrow> real \<Rightarrow> real \<Rightarrow> real" where
  "releaseFromSnapshot attackPeak attackLength releaseLength time releaseTime =
     (releaseTime / attackLength) * attackPeak
       * ((releaseTime + releaseLength - time) / releaseLength)"

text \<open>
  What the command loop keeps true of its variables: the notes emitted so far are in
  the order of their start times, none starts after the time, and the lengths that the
  time advances by are positive.
\<close>

definition timeline :: "Locals \<Rightarrow> bool" where
  "timeline st \<longleftrightarrow>
     sorted (map startTime (l_notes st))
     \<and> list_all (\<lambda>n. startTime n \<le> l_time st) (l_notes st)
     \<and> 0 < noteLength st \<and> 0 < currentTempo st \<and> 0 < currentBeatNote st"

text \<open>
  The first \<open>k\<close> rounds of the command loop, or all of them if they are fewer: the
  variables with which the loop is at its head after that many rounds.
\<close>

fun loopRounds :: "instruments \<Rightarrow> real list \<Rightarrow> nat \<Rightarrow> Locals \<Rightarrow> error + Locals" where
  "loopRounds instrs pitches 0 st = Inr st"
| "loopRounds instrs pitches (Suc k) st =
     (if \<not> StringProcessor_done (command st)
      then andThen (parseCommand instrs pitches st) (loopRounds instrs pitches k)
      else Inr st)"

section \<open>The pitch table\<close>

lemma length_fillOctave: "length (fillOctave ns O' A) = length ns"
  by (simp add: fillOctave_def)

lemma length_generateLoop: "length (generateLoop O' A ns) = length ns"
  by (induction O' A ns rule: generateLoop.induct)
     (subst generateLoop.simps, simp add: length_fillOctave)

lemma length_getStandardTwelveToneEqualNotes:
  "length getStandardTwelveToneEqualNotes = 108"
  by (simp add: getStandardTwelveToneEqualNotes_def generateTwelveToneEqual_def
      length_generateLoop totalNotes_def notesPerOctave_def octavesImplemented_def)

lemma nth_fillOctave_other:
  "i < O' * 12 \<or> O' * 12 + 12 \<le> i \<Longrightarrow> fillOctave ns O' A ! i = ns ! i"
  by (auto simp add: fillOctave_def notesPerOctave_def)

text \<open>A round of the loop leaves the octaves below its own as they are.\<close>

lemma nth_generateLoop_before:
  "i < O' * 12 \<Longrightarrow> generateLoop O' A ns ! i = ns ! i"
proof (induction O' A ns rule: generateLoop.induct)
  case (1 O' A ns)
  show ?case
  proof (cases "O' < octavesImplemented")
    case True
    have "generateLoop O' A ns ! i = generateLoop (O' + 1) (A * 2) (fillOctave ns O' A) ! i"
      by (subst generateLoop.simps) (simp add: True)
    also have "\<dots> = fillOctave ns O' A ! i"
      using "1.IH" [OF True] "1.prems" by simp
    also have "\<dots> = ns ! i"
      using "1.prems" by (simp add: nth_fillOctave_other)
    finally show ?thesis .
  next
    case False
    then show ?thesis by (subst generateLoop.simps) simp
  qed
qed

text \<open>The A of octave \<open>k\<close> is the A the loop starts from, doubled once per octave.\<close>

lemma nth_generateLoop_A:
  "O' \<le> k \<Longrightarrow> k < octavesImplemented \<Longrightarrow> k * 12 + 9 < length ns \<Longrightarrow>
   generateLoop O' A ns ! (k * 12 + 9) = A * 2 ^ (k - O')"
proof (induction O' A ns rule: generateLoop.induct)
  case (1 O' A ns)
  have lt: "O' < octavesImplemented" using "1.prems" by simp
  have unfold: "generateLoop O' A ns = generateLoop (O' + 1) (A * 2) (fillOctave ns O' A)"
    by (subst generateLoop.simps) (simp add: lt)
  show ?case
  proof (cases "O' = k")
    case True
    have "generateLoop O' A ns ! (k * 12 + 9)
          = generateLoop (O' + 1) (A * 2) (fillOctave ns O' A) ! (k * 12 + 9)"
      by (simp only: unfold)
    also have "\<dots> = fillOctave ns O' A ! (k * 12 + 9)"
      by (rule nth_generateLoop_before) (simp add: True)
    also have "\<dots> = A"
      using "1.prems" by (simp add: fillOctave_def notesPerOctave_def True)
    finally show ?thesis by (simp add: True)
  next
    case False
    then have le: "O' + 1 \<le> k" using "1.prems" by simp
    have "generateLoop O' A ns ! (k * 12 + 9)
          = generateLoop (O' + 1) (A * 2) (fillOctave ns O' A) ! (k * 12 + 9)"
      by (simp only: unfold)
    also have "\<dots> = A * 2 * 2 ^ (k - (O' + 1))"
      using "1.IH" [OF lt le] "1.prems" by (simp add: length_fillOctave)
    also have "\<dots> = A * 2 ^ Suc (k - (O' + 1))"
      by simp
    also have "Suc (k - (O' + 1)) = k - O'"
      using le by simp
    finally show ?thesis .
  qed
qed

lemma standard_A:
  "k < 9 \<Longrightarrow> getStandardTwelveToneEqualNotes ! (k * 12 + 9) = 27.5 * 2 ^ k"
  using nth_generateLoop_A [of 0 k "replicate totalNotes 0" "A440 / 16"]
  by (simp add: getStandardTwelveToneEqualNotes_def generateTwelveToneEqual_def
      totalNotes_def notesPerOctave_def octavesImplemented_def A440_def)

lemma getNoteNames_A:
  "getNoteNames ! 57 = ''A4'' \<and> getNoteNames ! 45 = ''A3''"
  by (simp add: getNoteNames_def generateNoteNames_def namesLoop.simps octavesImplemented_def
      namesOfOctave_def to_string.simps char_of_def bit_Suc_0_iff)

text \<open>
  Claim C1, as the specification states it: in the table of
  \<^verbatim>\<open>getStandardTwelveToneEqualNotes\<close> the entry at index 45 is 440 and the entry at index
  57 is twice that, 880. It does not hold: octave \<open>O\<close> fills the indices \<open>12 * O\<close> to
  \<open>12 * O + 11\<close>, so index 45 is the A of octave 3, which is 220.
\<close>

theorem pitch_45_is_not_440:
  "\<not> (getStandardTwelveToneEqualNotes ! 45 = 440
      \<and> getStandardTwelveToneEqualNotes ! 57 = 2 * getStandardTwelveToneEqualNotes ! 45
      \<and> getStandardTwelveToneEqualNotes ! 57 = 880)"
  using standard_A [of 3] by simp

text \<open>
  Claim C1, amended: the entry at index 57, which \<^verbatim>\<open>getNoteNames\<close> calls A4, is 440; the
  entry at index 45, called A3, is 220; so the entry at index 57 is twice the entry at
  index 45. Each of the two comes from 440 by a division by 16 and doublings, which are
  exact in binary floating point as they are in the reals.
\<close>

theorem pitch_A4_at_57:
  "getStandardTwelveToneEqualNotes ! 57 = 440
   \<and> getStandardTwelveToneEqualNotes ! 45 = 220
   \<and> getStandardTwelveToneEqualNotes ! 57 = 2 * getStandardTwelveToneEqualNotes ! 45
   \<and> getNoteNames ! 57 = ''A4'' \<and> getNoteNames ! 45 = ''A3''"
  using standard_A [of 4] standard_A [of 3] getNoteNames_A by simp

section \<open>Envelopes released during the attack\<close>

text \<open>
  Claim C2 says that \<^verbatim>\<open>loud\<close> is \<open>releaseFromSnapshot\<close> for every note released during
  the attack. The code chooses the section by \<open>releaseTime\<close> and then computes the
  value of the section from \<open>time\<close>. With the only \<^verbatim>\<open>AREnvelope\<close> there is (attack and
  release both 3/2048 s), a note released at 1/2048 s has the gain 4/9 at 2/2048 s, where
  the claim gives 2/9; with the \<^verbatim>\<open>ADSREnvelope()\<close> of \<^verbatim>\<open>Harmonica.cpp\<close> a note released
  at 0.05 s has the gain 21/32 at 0.075 s, where the claim gives 7/16.
\<close>

theorem release_mid_attack_uses_time:
  "Envelope_loud defaultAR (2 / 2048) (1 / 2048) = 4 / 9
   \<and> releaseFromSnapshot 1.0 (3 / 2048) (3 / 2048) (2 / 2048) (1 / 2048) = 2 / 9
   \<and> Envelope_loud defaultADSR (3 / 40) (1 / 20) = 21 / 32
   \<and> releaseFromSnapshot 1.0 0.1 0.2 (3 / 40) (1 / 20) = 7 / 16"
  by (simp add: defaultAR_def defaultADSR_def releaseFromSnapshot_def)

section \<open>The range of the oscillators\<close>



lemma squareWave_range: "\<bar>squareWave f t\<bar> \<le> 1"
  by (simp add: squareWave_def copysign_def)



lemma rectangularWave_range: "\<bar>rectangularWave f t duty\<bar> \<le> 1"
  by (simp add: rectangularWave_def Let_def)





text \<open>
  The saw wave with low frequency oscillations, a member of the harmonica of
  \<^verbatim>\<open>Harmonica.cpp\<close> with the loudness 0.001 and the rate 5, is itself not in [-1, 1]:
  at the frequency 0.1 and the time 0.1 its 99 terms add up to more than 1.68.
\<close>

lemma sawWaveLFO_exceeds_one:
  "Oscillator_note hash (SawWaveWithLowFrequencyOscillations 0.001 5.0) 0.1 0.1 > 1.68"
  by (simp add: sawWaveLFO_def sawLFOLoop.simps JavidSine_def M_TWOPI_def M_PI_def Let_def)




section \<open>Running the parser on a line\<close>

text \<open>
  The equations that run the parser on a given line. \<open>andThen_weak_cong\<close> has the
  simplifier work on a step before it looks at the steps after it.
\<close>

lemma andThen_weak_cong: "r = r' \<Longrightarrow> andThen r f = andThen r' f"
  by simp

lemmas processor_simps =
  mkStringProcessor_def StringProcessor_done_def StringProcessor_peek_def
  StringProcessor_consume_def StringProcessor_getNextChar_def getNextCharLoop.simps
  StringProcessor_getNumber_def getNumberLoop.simps
  isspace_def toupper_def isdigit_def NUL_def apostrophe_def INT_MAX_def
  char_of_def bit_Suc_0_iff Let_def

lemmas command_simps =
  parseCommand_def commandNote_def modifiersLoop.simps modifierSwitch_def commandN_def
  commandRest_def commandT_def commandL_def commandO_def commandM_def commandI_def
  commandV_def commandOctaveUp_def commandOctaveDown_def optionalSemicolon_def
  restDotsLoop.simps noteMap_def pitchAt_def totalNotes_def notesPerOctave_def
  octavesImplemented_def

lemmas line_simps =
  buildVoiceFromString_def parseLine_def parseLoop.simps initialLocals_def
  getDefaultInstrument_def makeDefaultInstrument_def
  length_getStandardTwelveToneEqualNotes




section \<open>The command \<^verbatim>\<open>N\<close>\<close>

lemma consume_result:
  "StringProcessor_consume cmd = Inr (c, cmd') \<Longrightarrow> c = StringProcessor_peek cmd"
  by (auto simp add: StringProcessor_consume_def StringProcessor_peek_def andThen_pair_Inr)

lemma isdigit_value: "isdigit c \<Longrightarrow> (0 :: int) \<le> of_char c - of_char (CHR ''0'')"
  by (auto simp add: isdigit_def)

text \<open>The numeric reader gives no negative number.\<close>

lemma getNumberLoop_nonneg:
  "getNumberLoop cmd number firstChar = Inr (n, cmd') \<Longrightarrow> 0 \<le> number \<Longrightarrow> 0 \<le> n"
proof (induction cmd number firstChar rule: getNumberLoop.induct)
  case (1 cmd number firstChar)
  show ?case
  proof (cases "isdigit (StringProcessor_peek cmd)")
    case True
    from "1.prems"(1) True obtain c cmd1 where
      c: "StringProcessor_consume cmd = Inr (c, cmd1)" and
      ok: "\<not> INT_MAX < number * 10 + (of_char c - of_char (CHR ''0''))" and
      rest: "getNumberLoop cmd1 (number * 10 + (of_char c - of_char (CHR ''0''))) False
             = Inr (n, cmd')"
      by (subst (asm) getNumberLoop.simps) (auto simp add: andThen_pair_Inr split: if_splits)
    have "isdigit c"
      using True consume_result [OF c] by simp
    then have "(0 :: int) \<le> of_char c - of_char (CHR ''0'')"
      by (rule isdigit_value)
    with "1.prems"(2) have "0 \<le> number * 10 + (of_char c - of_char (CHR ''0''))"
      by simp
    with "1.IH" [OF True c refl ok rest] show ?thesis .
  next
    case False
    with "1.prems" show ?thesis
      by (subst (asm) getNumberLoop.simps) (auto split: if_splits)
  qed
qed

lemma getNumber_nonneg: "StringProcessor_getNumber cmd = Inr (n, cmd') \<Longrightarrow> 0 \<le> n"
  by (auto simp add: StringProcessor_getNumber_def dest: getNumberLoop_nonneg)

text \<open>
  The command \<^verbatim>\<open>N\<close> with a number that the numeric reader can read, that is, one that
  fits its \<^verbatim>\<open>int\<close>: with any values of the variables of the parser, and \<open>n\<close> the
  number read (which is never negative), this is what the command does. If \<open>n = 0\<close>, no
  note is emitted and the time advances by \<open>noteLength\<close>. If \<open>1 \<le> n \<le> 108\<close>, the
  note with the frequency \<open>pitches[n - 1]\<close>, the start at the time, the duration
  \<open>noteLength * articulation\<close> and the volume is emitted, and the time advances by
  \<open>noteLength\<close>. If \<open>n > 108\<close>, the parser throws. The table of pitches has the 108
  entries that \<^verbatim>\<open>buildVoiceFromString\<close> insists on.
\<close>

lemma command_N_note_number:
  assumes "StringProcessor_peek (command st) = CHR ''N''"
    and "StringProcessor_consume (command st) = Inr (c, cmd1)"
    and "StringProcessor_getNumber cmd1 = Inr (n, cmd2)"
    and "length pitches = 108"
  shows "0 \<le> n
    \<and> (n = 0 \<longrightarrow>
         parseCommand instrs pitches st =
           Inr (st\<lparr>l_time := l_time st + noteLength st, command := cmd2\<rparr>))
    \<and> (1 \<le> n \<and> n \<le> 108 \<longrightarrow>
         parseCommand instrs pitches st =
           Inr (st\<lparr>l_notes :=
                      l_notes st
                      @ [mkNote (l_instrument st) (pitches ! nat (n - 1)) (l_time st)
                           (noteLength st * articulation st) (l_volume st)],
                    l_time := l_time st + noteLength st,
                    command := cmd2\<rparr>))
    \<and> (108 < n \<longrightarrow>
         parseCommand instrs pitches st = Inl (invalid_argument ''Invalid note number.''))"
proof -
  have N: "parseCommand instrs pitches st = commandN pitches st"
    using assms(1) by (simp add: parseCommand_def)
  have "0 \<le> n"
    using assms(3) by (rule getNumber_nonneg)
  then show ?thesis
    using assms(2-4)
    by (simp add: N commandN_def pitchAt_def totalNotes_def notesPerOctave_def
        octavesImplemented_def)
qed

lemma command_N_note_number_example:
  "StringProcessor_peek \<lparr>input = ''N0'', location = 0, peeked = CHR ''N''\<rparr> = CHR ''N''
   \<and> StringProcessor_consume \<lparr>input = ''N49 N109'', location = 0, peeked = CHR ''N''\<rparr>
       = Inr (CHR ''N'', \<lparr>input = ''N49 N109'', location = 1, peeked = CHR ''4''\<rparr>)
   \<and> StringProcessor_getNumber \<lparr>input = ''N49 N109'', location = 1, peeked = CHR ''4''\<rparr>
       = Inr (49, \<lparr>input = ''N49 N109'', location = 4, peeked = CHR ''N''\<rparr>)
   \<and> StringProcessor_getNumber \<lparr>input = ''N49 N109'', location = 5, peeked = CHR ''1''\<rparr>
       = Inr (109, \<lparr>input = ''N49 N109'', location = 8, peeked = CHR 0x00\<rparr>)
   \<and> StringProcessor_getNumber \<lparr>input = ''N0'', location = 1, peeked = CHR ''0''\<rparr>
       = Inr (0, \<lparr>input = ''N0'', location = 2, peeked = CHR 0x00\<rparr>)
   \<and> length getStandardTwelveToneEqualNotes = 108
   \<and> parseCommand getDefaultInstrument getStandardTwelveToneEqualNotes
         (initialLocals makeSquareWaveInstrument
            \<lparr>input = ''N0'', location = 0, peeked = CHR ''N''\<rparr>)
       = Inr ((initialLocals makeSquareWaveInstrument
                 \<lparr>input = ''N0'', location = 2, peeked = CHR 0x00\<rparr>)
              \<lparr>l_time := 1 / 2\<rparr>)
   \<and> parseCommand getDefaultInstrument getStandardTwelveToneEqualNotes
         (initialLocals makeSquareWaveInstrument
            \<lparr>input = ''N49 N109'', location = 0, peeked = CHR ''N''\<rparr>)
       = Inr ((initialLocals makeSquareWaveInstrument
                 \<lparr>input = ''N49 N109'', location = 4, peeked = CHR ''N''\<rparr>)
              \<lparr>l_notes :=
                 [mkNote makeSquareWaveInstrument (getStandardTwelveToneEqualNotes ! 48) 0
                    (1 / 2 * (7 / 8)) (1 / 2)],
               l_time := 1 / 2\<rparr>)
   \<and> parseCommand getDefaultInstrument getStandardTwelveToneEqualNotes
         (initialLocals makeSquareWaveInstrument
            \<lparr>input = ''N49 N109'', location = 4, peeked = CHR ''N''\<rparr>)
       = Inl (invalid_argument ''Invalid note number.'')"
proof -
  let ?i = "makeSquareWaveInstrument"
  let ?p = "getStandardTwelveToneEqualNotes"
  let ?a0 = "\<lparr>input = ''N0'', location = 0, peeked = CHR ''N''\<rparr>"
  let ?a1 = "\<lparr>input = ''N0'', location = 1, peeked = CHR ''0''\<rparr>"
  let ?a2 = "\<lparr>input = ''N0'', location = 2, peeked = CHR 0x00\<rparr>"
  let ?b0 = "\<lparr>input = ''N49 N109'', location = 0, peeked = CHR ''N''\<rparr>"
  let ?b1 = "\<lparr>input = ''N49 N109'', location = 1, peeked = CHR ''4''\<rparr>"
  let ?b4 = "\<lparr>input = ''N49 N109'', location = 4, peeked = CHR ''N''\<rparr>"
  let ?b5 = "\<lparr>input = ''N49 N109'', location = 5, peeked = CHR ''1''\<rparr>"
  let ?b8 = "\<lparr>input = ''N49 N109'', location = 8, peeked = CHR 0x00\<rparr>"
  have peek: "StringProcessor_peek ?a0 = CHR ''N''"
    by (simp add: processor_simps)
  have a01: "StringProcessor_consume ?a0 = Inr (CHR ''N'', ?a1)"
    by (simp add: processor_simps cong: andThen_weak_cong)
  have a12: "StringProcessor_getNumber ?a1 = Inr (0, ?a2)"
    by (simp add: processor_simps cong: andThen_weak_cong)
  have b01: "StringProcessor_consume ?b0 = Inr (CHR ''N'', ?b1)"
    by (simp add: processor_simps cong: andThen_weak_cong)
  have b14: "StringProcessor_getNumber ?b1 = Inr (49, ?b4)"
    by (simp add: processor_simps cong: andThen_weak_cong)
  have b45: "StringProcessor_consume ?b4 = Inr (CHR ''N'', ?b5)"
    by (simp add: processor_simps cong: andThen_weak_cong)
  have b58: "StringProcessor_getNumber ?b5 = Inr (109, ?b8)"
    by (simp add: processor_simps cong: andThen_weak_cong)
  note len = length_getStandardTwelveToneEqualNotes
  have zero: "parseCommand getDefaultInstrument ?p (initialLocals ?i ?a0)
              = Inr ((initialLocals ?i ?a2)\<lparr>l_time := 1 / 2\<rparr>)"
    using command_N_note_number [of "initialLocals ?i ?a0" "CHR ''N''" ?a1 0 ?a2 ?p
        getDefaultInstrument] a01 a12 len
    by (simp add: initialLocals_def StringProcessor_peek_def)
  have note49: "parseCommand getDefaultInstrument ?p (initialLocals ?i ?b0)
              = Inr ((initialLocals ?i ?b4)
                     \<lparr>l_notes := [mkNote ?i (?p ! 48) 0 (1 / 2 * (7 / 8)) (1 / 2)],
                      l_time := 1 / 2\<rparr>)"
    using command_N_note_number [of "initialLocals ?i ?b0" "CHR ''N''" ?b1 49 ?b4 ?p
        getDefaultInstrument] b01 b14 len
    by (simp add: initialLocals_def StringProcessor_peek_def)
  have big: "parseCommand getDefaultInstrument ?p (initialLocals ?i ?b4)
              = Inl (invalid_argument ''Invalid note number.'')"
    using command_N_note_number [of "initialLocals ?i ?b4" "CHR ''N''" ?b5 109 ?b8 ?p
        getDefaultInstrument] b45 b58 len
    by (simp add: initialLocals_def StringProcessor_peek_def)
  show ?thesis
    using peek b01 b14 b58 a12 len zero note49 big by blast
qed

text \<open>
  Claim C5 says of the command \<^verbatim>\<open>N n\<close>: no note for \<open>n = 0\<close>, the note
  \<open>pitches[n - 1]\<close> for \<open>1 \<le> n \<le> 108\<close>, and a parse error for every \<open>n > 108\<close>. The
  code does so for the numbers that fit the \<^verbatim>\<open>int\<close> of \<^verbatim>\<open>getNumber\<close>
  (\<open>command_N_note_number\<close>), and \<^verbatim>\<open>getNumber\<close> has no guard for the others. The line
  \<^verbatim>\<open>N4294967345\<close> names the number \<open>2 ^ 32 + 49\<close>, which is above 108: its tenth digit
  takes the \<^verbatim>\<open>int\<close> past \<^verbatim>\<open>INT_MAX\<close>, which C++ leaves undefined (the arithmetic modulo
  \<open>2 ^ 32\<close> of the usual machines makes it 49), and the check \<^verbatim>\<open>note > totalNotes\<close> that
  throws the parse error is not what answers it.
\<close>

theorem note_number_beyond_int:
  "StringProcessor_getNumber \<lparr>input = ''N4294967345'', location = 1, peeked = CHR ''4''\<rparr>
     = Inl undefined_behaviour
   \<and> parseCommand getDefaultInstrument getStandardTwelveToneEqualNotes
       (initialLocals makeSquareWaveInstrument
          \<lparr>input = ''N4294967345'', location = 0, peeked = CHR ''N''\<rparr>)
     = Inl undefined_behaviour
   \<and> buildVoiceFromString ''N4294967345'' getDefaultInstrument getStandardTwelveToneEqualNotes
     = Inl undefined_behaviour
   \<and> buildVoiceFromString ''N4294967345'' getDefaultInstrument getStandardTwelveToneEqualNotes
     \<noteq> Inl (invalid_argument ''Invalid note number.'')"
  by (simp add: line_simps command_simps processor_simps cong: andThen_weak_cong)

section \<open>The order of the notes\<close>

lemma timeline_initialLocals: "timeline (initialLocals i cmd)"
  by (simp add: timeline_def initialLocals_def)

lemma restDotsLoop_pos:
  "restDotsLoop len dot cmd = Inr (r, cmd') \<Longrightarrow> 0 < len \<Longrightarrow> 0 < dot \<Longrightarrow> 0 < r"
proof (induction len dot cmd rule: restDotsLoop.induct)
  case (1 len dot cmd)
  show ?case
  proof (cases "CHR ''.'' = StringProcessor_peek cmd")
    case True
    from "1.prems"(1) True obtain c cmd1 where
      c: "StringProcessor_consume cmd = Inr (c, cmd1)" and
      rest: "restDotsLoop (len + dot) (dot * 0.5) cmd1 = Inr (r, cmd')"
      by (subst (asm) restDotsLoop.simps) (auto simp add: andThen_pair_Inr)
    from "1.prems"(2,3) have "0 < len + dot" and "0 < dot * 0.5"
      by simp_all
    with "1.IH" [OF True c refl rest] show ?thesis .
  next
    case False
    with "1.prems" show ?thesis
      by (subst (asm) restDotsLoop.simps) simp
  qed
qed

lemma modifierSwitch_pos:
  "modifierSwitch tempo nl cmd = Inr (nl', cmd') \<Longrightarrow> 0 < tempo \<Longrightarrow>
   0 < tempLength nl \<Longrightarrow> 0 < nextDot nl \<Longrightarrow> 0 < tempLength nl' \<and> 0 < nextDot nl'"
  by (auto simp add: modifierSwitch_def andThen_pair_Inr zero_less_mult_iff split: if_splits)

lemma modifiersLoop_pos:
  "modifiersLoop tempo nl cmd = Inr (nl', cmd') \<Longrightarrow> 0 < tempo \<Longrightarrow>
   0 < tempLength nl \<Longrightarrow> 0 < nextDot nl \<Longrightarrow> 0 < tempLength nl'"
proof (induction tempo nl cmd rule: modifiersLoop.induct)
  case (1 tempo nl cmd)
  show ?case
  proof (cases "modifiers nl")
    case True
    from "1.prems"(1) True obtain nl1 cmd1 where
      step: "modifierSwitch tempo nl cmd = Inr (nl1, cmd1)" and
      rest: "modifiersLoop tempo nl1 cmd1 = Inr (nl', cmd')"
      by (subst (asm) modifiersLoop.simps) (auto simp add: andThen_pair_Inr)
    from modifierSwitch_pos [OF step "1.prems"(2-4)]
    have "0 < tempLength nl1" and "0 < nextDot nl1"
      by simp_all
    with "1.IH" [OF True step refl rest "1.prems"(2)] show ?thesis .
  next
    case False
    with "1.prems" show ?thesis
      by (subst (asm) modifiersLoop.simps) simp
  qed
qed

lemma timeline_emit:
  assumes "timeline st" and "0 \<le> len"
  shows "timeline
           (st\<lparr>l_notes := l_notes st @ [mkNote i f (l_time st) d v],
               l_time := l_time st + len, command := cmd\<rparr>)"
  using assms
  by (auto simp add: timeline_def mkNote_def sorted_append list_all_iff)

lemma timeline_advance:
  assumes "timeline st" and "0 \<le> len"
  shows "timeline (st\<lparr>l_time := l_time st + len, command := cmd\<rparr>)"
  using assms by (auto simp add: timeline_def list_all_iff)

lemma commandNote_timeline:
  assumes "commandNote pitches st = Inr st'" and "timeline st"
  shows "timeline st'"
proof -
  from assms(1) obtain c cmd1 nl cmd2 pitch where
    loop: "modifiersLoop (currentTempo st)
             \<lparr>l_note = currentOctave st * int notesPerOctave
                        + noteMap ! (of_char c - of_char (CHR ''A'')),
              tempDuration = articulation st, tempLength = noteLength st,
              tempVolume = l_volume st, modifiers = True, advance = True,
              nextDot = noteLength st * 0.5\<rparr> cmd1 = Inr (nl, cmd2)" and
    st': "st' = st\<lparr>l_notes :=
                     l_notes st
                     @ [mkNote (l_instrument st) pitch (l_time st)
                          (tempLength nl * tempDuration nl) (tempVolume nl)],
                   l_time := (if advance nl then l_time st + tempLength nl else l_time st),
                   command := cmd2\<rparr>"
    by (auto simp add: commandNote_def andThen_pair_Inr andThen_Inr_iff)
  have "0 < tempLength nl"
    using modifiersLoop_pos [OF loop] assms(2) by (simp add: timeline_def)
  then have len: "0 \<le> (if advance nl then tempLength nl else 0)"
    by simp
  have "st' = st\<lparr>l_notes :=
                     l_notes st
                     @ [mkNote (l_instrument st) pitch (l_time st)
                          (tempLength nl * tempDuration nl) (tempVolume nl)],
                   l_time := l_time st + (if advance nl then tempLength nl else 0),
                   command := cmd2\<rparr>"
    by (simp add: st')
  then show ?thesis
    using timeline_emit [OF assms(2) len] by simp
qed

lemma commandN_timeline:
  assumes "commandN pitches st = Inr st'" and "timeline st"
  shows "timeline st'"
proof -
  have len: "0 \<le> noteLength st"
    using assms(2) by (simp add: timeline_def)
  from assms(1) show ?thesis
    using timeline_emit [OF assms(2) len] timeline_advance [OF assms(2) len]
    by (auto simp add: commandN_def andThen_pair_Inr andThen_Inr_iff split: if_splits)
qed

lemma commandRest_timeline:
  assumes "commandRest st = Inr st'" and "timeline st"
  shows "timeline st'"
proof -
  let ?digit = "\<lambda>cmd1. (48 :: nat) \<le> of_char (StringProcessor_peek cmd1)
                        \<and> of_char (StringProcessor_peek cmd1) \<le> (57 :: nat)"
  from assms(1) obtain c cmd1 len cmd3 len' cmd4 where
    first: "(if ?digit cmd1
             then andThen (StringProcessor_getNumber cmd1)
                    (\<lambda>(n, cmd2).
                       if n < 1 \<or> n > 64 then Inl (invalid_argument ''Invalid note length.'')
                       else Inr (240.0 / real_of_int (n * currentTempo st), cmd2))
             else Inr (noteLength st, cmd1)) = Inr (len, cmd3)" and
    dots: "restDotsLoop len (len * 0.5) cmd3 = Inr (len', cmd4)" and
    st': "st' = st\<lparr>l_time := l_time st + len', command := cmd4\<rparr>"
    unfolding commandRest_def andThen_pair_Inr by blast
  have len: "0 < len"
  proof (cases "?digit cmd1")
    case True
    with first assms(2) show ?thesis
      by (auto simp add: andThen_pair_Inr timeline_def zero_less_mult_iff split: if_splits)
  next
    case False
    with first assms(2) show ?thesis
      by (simp add: timeline_def)
  qed
  then have "0 < len * 0.5"
    by simp
  with dots len have "0 < len'"
    by (blast intro: restDotsLoop_pos)
  then show ?thesis
    using timeline_advance [OF assms(2), of len' cmd4] by (simp add: st')
qed

lemma commandT_timeline:
  "commandT st = Inr st' \<Longrightarrow> timeline st \<Longrightarrow> timeline st'"
  by (auto simp add: commandT_def andThen_pair_Inr timeline_def zero_less_mult_iff
      split: if_splits)

lemma commandL_timeline:
  "commandL st = Inr st' \<Longrightarrow> timeline st \<Longrightarrow> timeline st'"
  by (auto simp add: commandL_def andThen_pair_Inr timeline_def zero_less_mult_iff
      split: if_splits)

lemma commandO_timeline:
  "commandO st = Inr st' \<Longrightarrow> timeline st \<Longrightarrow> timeline st'"
  by (auto simp add: commandO_def andThen_pair_Inr timeline_def split: if_splits)

lemma commandOctaveUp_timeline:
  "commandOctaveUp st = Inr st' \<Longrightarrow> timeline st \<Longrightarrow> timeline st'"
  by (auto simp add: commandOctaveUp_def andThen_pair_Inr timeline_def split: if_splits)

lemma commandOctaveDown_timeline:
  "commandOctaveDown st = Inr st' \<Longrightarrow> timeline st \<Longrightarrow> timeline st'"
  by (auto simp add: commandOctaveDown_def andThen_pair_Inr timeline_def split: if_splits)

lemma commandM_timeline:
  "commandM st = Inr st' \<Longrightarrow> timeline st \<Longrightarrow> timeline st'"
  by (auto simp add: commandM_def andThen_pair_Inr timeline_def split: if_splits)

lemma commandI_timeline:
  "commandI instrs st = Inr st' \<Longrightarrow> timeline st \<Longrightarrow> timeline st'"
  by (auto simp add: commandI_def andThen_pair_Inr timeline_def
      split: if_splits option.splits)

lemma optionalSemicolon_timeline:
  "optionalSemicolon st cmd = Inr st' \<Longrightarrow> timeline st \<Longrightarrow> timeline st'"
  by (auto simp add: optionalSemicolon_def andThen_pair_Inr timeline_def split: if_splits)

lemma timeline_volume: "timeline st \<Longrightarrow> timeline (st\<lparr>l_volume := v\<rparr>)"
  by (simp add: timeline_def)

lemma commandV_timeline:
  assumes "commandV st = Inr st'" and "timeline st"
  shows "timeline st'"
proof -
  from assms(1) consider
    (number) v cmd where "st' = st\<lparr>l_volume := v, command := cmd\<rparr>"
    | (word) v cmd where "optionalSemicolon (st\<lparr>l_volume := v\<rparr>) cmd = Inr st'"
    by (auto simp add: commandV_def andThen_pair_Inr split: if_splits)
  then show ?thesis
  proof cases
    case number
    with assms(2) show ?thesis by (simp add: timeline_def)
  next
    case word
    then show ?thesis
      using assms(2) by (blast intro: optionalSemicolon_timeline timeline_volume)
  qed
qed

lemma parseCommand_timeline:
  "parseCommand instrs pitches st = Inr st' \<Longrightarrow> timeline st \<Longrightarrow> timeline st'"
  unfolding parseCommand_def Let_def
  by (auto split: if_splits
      dest: commandNote_timeline commandOctaveUp_timeline commandOctaveDown_timeline
        commandT_timeline commandL_timeline commandO_timeline commandN_timeline
        commandRest_timeline commandM_timeline commandI_timeline commandV_timeline)

lemma parseLoop_timeline:
  "parseLoop instrs pitches st = Inr st' \<Longrightarrow> timeline st \<Longrightarrow> timeline st'"
proof (induction instrs pitches st rule: parseLoop.induct)
  case (1 instrs pitches st)
  show ?case
  proof (cases "StringProcessor_done (command st)")
    case True
    with "1.prems" show ?thesis
      by (subst (asm) parseLoop.simps) simp
  next
    case False
    with "1.prems"(1) obtain st1 where
      round: "parseCommand instrs pitches st = Inr st1" and
      rest: "parseLoop instrs pitches st1 = Inr st'"
      by (subst (asm) parseLoop.simps) (auto simp add: andThen_Inr_iff)
    have "timeline st1"
      using round "1.prems"(2) by (rule parseCommand_timeline)
    with "1.IH" [OF False round rest] show ?thesis .
  qed
qed

lemma parseLine_timeline: "parseLine inp instrs pitches = Inr st \<Longrightarrow> timeline st"
  by (auto simp add: parseLine_def andThen_Inr_iff split: if_splits option.splits
      dest: parseLoop_timeline intro: timeline_initialLocals)

text \<open>
  Claim C8: for every line on which \<^verbatim>\<open>buildVoiceFromString\<close> succeeds, with any
  instruments and pitches, the notes of the voice are in the order of their start times
  (which do not decrease along the notes).
\<close>

theorem notes_in_start_order:
  "buildVoiceFromString inp instrs pitches = Inr v \<Longrightarrow> sorted (map startTime (notes v))"
  by (auto simp add: buildVoiceFromString_def andThen_Inr_iff mkVoice_def timeline_def
      dest!: parseLine_timeline)

theorem notes_in_start_order_witness:
  "buildVoiceFromString ''T120 L4 O4 C,E. D8 R N49'' getDefaultInstrument
       getStandardTwelveToneEqualNotes
     = Inr (mkVoice
              [mkNote makeSquareWaveInstrument (getStandardTwelveToneEqualNotes ! 48) 0
                 (7 / 16) (1 / 2),
               mkNote makeSquareWaveInstrument (getStandardTwelveToneEqualNotes ! 52) 0
                 (21 / 32) (1 / 2),
               mkNote makeSquareWaveInstrument (getStandardTwelveToneEqualNotes ! 50) (3 / 4)
                 (7 / 32) (1 / 2),
               mkNote makeSquareWaveInstrument (getStandardTwelveToneEqualNotes ! 48) (3 / 2)
                 (7 / 16) (1 / 2)])
   \<and> sorted (map startTime
        (notes (mkVoice
              [mkNote makeSquareWaveInstrument (getStandardTwelveToneEqualNotes ! 48) 0
                 (7 / 16) (1 / 2),
               mkNote makeSquareWaveInstrument (getStandardTwelveToneEqualNotes ! 52) 0
                 (21 / 32) (1 / 2),
               mkNote makeSquareWaveInstrument (getStandardTwelveToneEqualNotes ! 50) (3 / 4)
                 (7 / 32) (1 / 2),
               mkNote makeSquareWaveInstrument (getStandardTwelveToneEqualNotes ! 48) (3 / 2)
                 (7 / 16) (1 / 2)])))"
proof -
  have run: "buildVoiceFromString ''T120 L4 O4 C,E. D8 R N49'' getDefaultInstrument
       getStandardTwelveToneEqualNotes
     = Inr (mkVoice
              [mkNote makeSquareWaveInstrument (getStandardTwelveToneEqualNotes ! 48) 0
                 (7 / 16) (1 / 2),
               mkNote makeSquareWaveInstrument (getStandardTwelveToneEqualNotes ! 52) 0
                 (21 / 32) (1 / 2),
               mkNote makeSquareWaveInstrument (getStandardTwelveToneEqualNotes ! 50) (3 / 4)
                 (7 / 32) (1 / 2),
               mkNote makeSquareWaveInstrument (getStandardTwelveToneEqualNotes ! 48) (3 / 2)
                 (7 / 16) (1 / 2)])"
    by (simp add: line_simps command_simps processor_simps mkNote_def mkVoice_def
        cong: andThen_weak_cong)
  from run notes_in_start_order [OF run] show ?thesis
    by (rule conjI)
qed

section \<open>Characters that are no command\<close>

lemma loopRounds_parseLoop:
  "loopRounds instrs pitches k st = Inr st' \<Longrightarrow>
   parseLoop instrs pitches st = parseLoop instrs pitches st'"
proof (induction k arbitrary: st)
  case 0
  then show ?case by simp
next
  case (Suc k)
  show ?case
  proof (cases "StringProcessor_done (command st)")
    case True
    with Suc.prems show ?thesis by simp
  next
    case False
    with Suc.prems obtain st1 where
      round: "parseCommand instrs pitches st = Inr st1" and
      rest: "loopRounds instrs pitches k st1 = Inr st'"
      by (auto simp add: andThen_Inr_iff)
    have "parseLoop instrs pitches st = parseLoop instrs pitches st1"
      using False round by (subst parseLoop.simps) simp
    with Suc.IH [OF rest] show ?thesis by simp
  qed
qed

lemma parseLoop_unknown_command:
  assumes "\<not> StringProcessor_done (command st)"
    and "StringProcessor_peek (command st) \<notin> commandChars"
  shows "parseLoop instrs pitches st =
           Inl (invalid_argument
                  (''Did not understand command component '' @ [apostrophe]
                   @ [StringProcessor_peek (command st)] @ [apostrophe] @ ''.''))"
proof -
  have "parseCommand instrs pitches st =
           Inl (invalid_argument
                  (''Did not understand command component '' @ [apostrophe]
                   @ [StringProcessor_peek (command st)] @ [apostrophe] @ ''.''))"
    using assms(2) by (simp add: parseCommand_def commandChars_def Let_def)
  then show ?thesis
    using assms(1) by (subst parseLoop.simps) simp
qed

text \<open>The constructor of the \<^verbatim>\<open>Maestro\<close> throws when one of its lines does.\<close>

lemma maestroLoop_fails:
  "line \<in> set music \<Longrightarrow>
   buildVoiceFromString line instrs getStandardTwelveToneEqualNotes = Inl e \<Longrightarrow>
   \<exists>e'. maestroLoop music instrs choir' = Inl e'"
proof (induction music arbitrary: choir')
  case Nil
  then show ?case by simp
next
  case (Cons voice music)
  show ?case
  proof (cases "buildVoiceFromString voice instrs getStandardTwelveToneEqualNotes")
    case (Inl e')
    then show ?thesis by simp
  next
    case (Inr v)
    with Cons.prems have "line \<in> set music"
      by auto
    with Cons.IH Cons.prems(2) Inr show ?thesis
      by simp
  qed
qed

text \<open>
  Claim C4, as the specification states it: every line that contains a character that
  is no command is rejected with a message that names the character. It does not hold:
  \<^verbatim>\<open>Z\<close> is no command, and the line \<^verbatim>\<open>VZ\<close> is rejected by the volume command, whose
  message does not name it.
\<close>

theorem volume_error_does_not_name_character:
  "buildVoiceFromString ''VZ'' getDefaultInstrument getStandardTwelveToneEqualNotes
     = Inl (invalid_argument ''Invalid volume specification.'')
   \<and> CHR ''Z'' \<notin> commandChars
   \<and> CHR ''Z'' \<notin> set ''Invalid volume specification.''"
  by (simp add: line_simps command_simps processor_simps commandChars_def
      cong: andThen_weak_cong)

text \<open>
  Claim C4, amended: when the command loop of \<^verbatim>\<open>buildVoiceFromString\<close> comes, after
  some number of rounds and with input left, to a character that is none of the commands,
  the function throws
  \<^verbatim>\<open>Did not understand command component 'c'.\<close> with that character for \<open>c\<close>, and
  gives no voice. A line that is rejected makes the constructor of the \<^verbatim>\<open>Maestro\<close> and
  \<^verbatim>\<open>Venue::queueMusic\<close> throw, so that nothing is put in the queue.
\<close>

theorem unknown_command_rejected:
  assumes "instrs NUL = Some i" and "length pitches = 108"
    and "mkStringProcessor inp = Inr cmd"
    and "loopRounds instrs pitches k (initialLocals i cmd) = Inr st"
    and "\<not> StringProcessor_done (command st)"
    and "StringProcessor_peek (command st) \<notin> commandChars"
  shows "buildVoiceFromString inp instrs pitches =
           Inl (invalid_argument
                  (''Did not understand command component '' @ [apostrophe]
                   @ [StringProcessor_peek (command st)] @ [apostrophe] @ ''.''))
    \<and> (pitches = getStandardTwelveToneEqualNotes \<longrightarrow> inp \<in> set music \<longrightarrow>
         (\<exists>e. mkMaestro music instrs = Inl e)
         \<and> (\<exists>e. Venue_queueMusic v music instrs = Inl e))"
proof -
  have "parseLoop instrs pitches (initialLocals i cmd) = parseLoop instrs pitches st"
    using assms(4) by (rule loopRounds_parseLoop)
  also have "\<dots> = Inl (invalid_argument
                  (''Did not understand command component '' @ [apostrophe]
                   @ [StringProcessor_peek (command st)] @ [apostrophe] @ ''.''))"
    using assms(5,6) by (rule parseLoop_unknown_command)
  finally have line: "buildVoiceFromString inp instrs pitches =
           Inl (invalid_argument
                  (''Did not understand command component '' @ [apostrophe]
                   @ [StringProcessor_peek (command st)] @ [apostrophe] @ ''.''))"
    using assms(1-3)
    by (simp add: buildVoiceFromString_def parseLine_def totalNotes_def notesPerOctave_def
        octavesImplemented_def)
  have "(\<exists>e. mkMaestro music instrs = Inl e) \<and> (\<exists>e. Venue_queueMusic v music instrs = Inl e)"
    if "pitches = getStandardTwelveToneEqualNotes" and "inp \<in> set music"
  proof -
    from that line obtain e where "maestroLoop music instrs [] = Inl e"
      using maestroLoop_fails [of inp music instrs _ "[]"] by auto
    then show ?thesis
      by (simp add: mkMaestro_def Venue_queueMusic_def)
  qed
  with line show ?thesis
    by simp
qed

theorem unknown_command_rejected_witness:
  "getDefaultInstrument NUL = Some makeSquareWaveInstrument
   \<and> length getStandardTwelveToneEqualNotes = 108
   \<and> mkStringProcessor ''C#Z'' = Inr \<lparr>input = ''C#Z'', location = 0, peeked = CHR ''C''\<rparr>
   \<and> loopRounds getDefaultInstrument getStandardTwelveToneEqualNotes (Suc 0)
       (initialLocals makeSquareWaveInstrument
          \<lparr>input = ''C#Z'', location = 0, peeked = CHR ''C''\<rparr>)
     = Inr ((initialLocals makeSquareWaveInstrument
               \<lparr>input = ''C#Z'', location = 2, peeked = CHR ''Z''\<rparr>)
            \<lparr>l_time := 1 / 2,
             l_notes :=
               [mkNote makeSquareWaveInstrument (getStandardTwelveToneEqualNotes ! 49) 0
                  (1 / 2 * (7 / 8)) (1 / 2)]\<rparr>)
   \<and> CHR ''Z'' \<notin> commandChars
   \<and> buildVoiceFromString ''C#Z'' getDefaultInstrument getStandardTwelveToneEqualNotes
       = Inl (invalid_argument ''Did not understand command component 'Z'.'')
   \<and> (\<exists>e. mkMaestro [''C'', ''C#Z''] getDefaultInstrument = Inl e)
   \<and> (\<exists>e. Venue_queueMusic initialVenue [''C'', ''C#Z''] getDefaultInstrument = Inl e)"
proof -
  let ?p = "getStandardTwelveToneEqualNotes"
  let ?i = "makeSquareWaveInstrument"
  let ?c0 = "\<lparr>input = ''C#Z'', location = 0, peeked = CHR ''C''\<rparr>"
  let ?st = "(initialLocals ?i \<lparr>input = ''C#Z'', location = 2, peeked = CHR ''Z''\<rparr>)
        \<lparr>l_time := 1 / 2,
         l_notes := [mkNote ?i (?p ! 49) 0 (1 / 2 * (7 / 8)) (1 / 2)]\<rparr>"
  have default: "getDefaultInstrument NUL = Some ?i"
    by (simp add: getDefaultInstrument_def makeDefaultInstrument_def)
  note len = length_getStandardTwelveToneEqualNotes
  have processor: "mkStringProcessor ''C#Z'' = Inr ?c0"
    by (simp add: processor_simps)
  have more: "\<not> StringProcessor_done (command (initialLocals ?i ?c0))"
    by (simp add: initialLocals_def StringProcessor_done_def)
  have round: "parseCommand getDefaultInstrument ?p (initialLocals ?i ?c0) = Inr ?st"
    by (simp add: initialLocals_def command_simps processor_simps len mkNote_def
        cong: andThen_weak_cong)
  have path: "loopRounds getDefaultInstrument ?p (Suc 0) (initialLocals ?i ?c0) = Inr ?st"
    using more round by simp
  have left: "\<not> StringProcessor_done (command ?st)"
    by (simp add: initialLocals_def StringProcessor_done_def)
  have Z: "StringProcessor_peek (command ?st) \<notin> commandChars"
    by (simp add: initialLocals_def StringProcessor_peek_def commandChars_def)
  have Z': "CHR ''Z'' \<notin> commandChars"
    by (simp add: commandChars_def)
  from unknown_command_rejected [OF default len processor path left Z,
      of "[''C'', ''C#Z'']" initialVenue]
  have "buildVoiceFromString ''C#Z'' getDefaultInstrument ?p
          = Inl (invalid_argument ''Did not understand command component 'Z'.'')"
    and "\<exists>e. mkMaestro [''C'', ''C#Z''] getDefaultInstrument = Inl e"
    and "\<exists>e. Venue_queueMusic initialVenue [''C'', ''C#Z''] getDefaultInstrument = Inl e"
    by (simp_all add: initialLocals_def StringProcessor_peek_def apostrophe_def)
  with default len processor path Z' show ?thesis
    by blast
qed

section \<open>The Venue\<close>

text \<open>
  Claim C9: for every Venue with \<^verbatim>\<open>stopPlaying\<close> set, \<^verbatim>\<open>getSample\<close> on channel 0
  empties the program, sets \<^verbatim>\<open>stopPlaying\<close> to false and \<^verbatim>\<open>internalTime\<close> to -1, calls
  \<^verbatim>\<open>hollaback\<close> if there is one, and then goes on with the rest of the function instead of
  returning. So without a callback the call returns 0 and leaves the emptied Venue, and
  when the callback queues a Maestro that has something to play, the same call plays it
  at the time 0.
\<close>

theorem stop_request_clears_and_goes_on:
  assumes "stopPlaying v"
  shows "Venue_getSample hash hollaback v 0 globalTime timeDelta =
           playProgram hash hollaback timeDelta
             (callHollaback hollaback
                (v\<lparr>program := [], stopPlaying := False, internalTime := - 1\<rparr>))
    \<and> (hollaback = None \<longrightarrow>
         Venue_getSample hash hollaback v 0 globalTime timeDelta =
           (0, v\<lparr>program := [], stopPlaying := False, internalTime := - 1\<rparr>))
    \<and> (\<forall>f song.
          hollaback = Some f
          \<and> f (v\<lparr>program := [], stopPlaying := False, internalTime := - 1\<rparr>) =
              Venue_queueMaestro
                (v\<lparr>program := [], stopPlaying := False, internalTime := - 1\<rparr>) song
          \<and> \<not> Maestro_finished song \<longrightarrow>
          Venue_getSample hash hollaback v 0 globalTime timeDelta =
            (fst (Maestro_play hash song 0),
             v\<lparr>program := [snd (Maestro_play hash song 0)], stopPlaying := False,
               internalTime := 0\<rparr>))"
proof -
  let ?cleared = "v\<lparr>program := [], stopPlaying := False, internalTime := - 1\<rparr>"
  have general: "Venue_getSample hash hollaback v 0 globalTime timeDelta =
           playProgram hash hollaback timeDelta (callHollaback hollaback ?cleared)"
    using assms by (simp add: Venue_getSample_def stopRequested_def)
  have silent: "Venue_getSample hash hollaback v 0 globalTime timeDelta = (0, ?cleared)"
    if "hollaback = None"
    using assms that
    by (simp add: Venue_getSample_def stopRequested_def callHollaback_def playProgram_def)
  have queued: "Venue_getSample hash hollaback v 0 globalTime timeDelta =
            (fst (Maestro_play hash song 0),
             v\<lparr>program := [snd (Maestro_play hash song 0)], stopPlaying := False,
               internalTime := 0\<rparr>)"
    if "hollaback = Some f" and "f ?cleared = Venue_queueMaestro ?cleared song"
      and "\<not> Maestro_finished song" for f song
    using assms that
    by (simp add: Venue_getSample_def stopRequested_def callHollaback_def playProgram_def
        Venue_queueMaestro_def Let_def split_beta)
  from general silent queued show ?thesis
    by blast
qed

theorem stop_request_clears_and_goes_on_witness:
  "stopPlaying
     \<lparr>program = [\<lparr>choir = []\<rparr>], stopPlaying = True, looping = False, internalTime = 3\<rparr>
   \<and> \<not> Maestro_finished
         \<lparr>choir = [mkVoice [mkNote makeSquareWaveInstrument 440 0 1 (1 / 2)]]\<rparr>
   \<and> Venue_getSample (\<lambda>x. 0)
       (Some (\<lambda>v. Venue_queueMaestro v
                \<lparr>choir = [mkVoice [mkNote makeSquareWaveInstrument 440 0 1 (1 / 2)]]\<rparr>))
       \<lparr>program = [\<lparr>choir = []\<rparr>], stopPlaying = True, looping = False, internalTime = 3\<rparr>
       0 17 (1 / 44100)
     = (0,
        \<lparr>program =
           [\<lparr>choir =
               [\<lparr>notes = [mkNote makeSquareWaveInstrument 440 0 1 (1 / 2)],
                 index = 1,
                 activeNotes = [mkNote makeSquareWaveInstrument 440 0 1 (1 / 2)]\<rparr>]\<rparr>],
         stopPlaying = False, looping = False, internalTime = 0\<rparr>)
   \<and> Venue_getSample (\<lambda>x. 0) None
       \<lparr>program = [\<lparr>choir = []\<rparr>], stopPlaying = True, looping = False, internalTime = 3\<rparr>
       0 17 (1 / 44100)
     = (0, \<lparr>program = [], stopPlaying = False, looping = False, internalTime = - 1\<rparr>)"
proof -
  let ?n = "mkNote makeSquareWaveInstrument 440 0 1 (1 / 2)"
  let ?song = "\<lparr>choir = [mkVoice [?n]]\<rparr>"
  let ?v = "\<lparr>program = [\<lparr>choir = []\<rparr>], stopPlaying = True, looping = False,
            internalTime = 3\<rparr>"
  let ?f = "\<lambda>v. Venue_queueMaestro v ?song"
  have stop: "stopPlaying ?v"
    by simp
  have unfinished: "\<not> Maestro_finished ?song"
    by (simp add: Maestro_finished_def Voice_finished_def mkVoice_def)
  have play: "Maestro_play (\<lambda>x. 0) ?song 0 =
                (0, \<lparr>choir = [\<lparr>notes = [?n], index = 1, activeNotes = [?n]\<rparr>]\<rparr>)"
    by (simp add: Maestro_play_def Voice_play_def Voice_endPlay_def Voice_playActive_def
        skipPassed.simps activateStarted.simps mkVoice_def mkNote_def Note_after_def
        Note_before_def Note_play_def Instrument_note_def Instrument_release_def
        makeSquareWaveInstrument_def defaultAR_def squareWave_def copysign_def Let_def)
  note queued =
    stop_request_clears_and_goes_on [OF stop, of "\<lambda>x. 0" "Some ?f" 17 "1 / 44100",
      THEN conjunct2, THEN conjunct2, THEN spec, THEN spec, of ?f ?song]
  have a: "Venue_getSample (\<lambda>x. 0) (Some ?f) ?v 0 17 (1 / 44100) =
          (0, \<lparr>program = [\<lparr>choir = [\<lparr>notes = [?n], index = 1, activeNotes = [?n]\<rparr>]\<rparr>],
               stopPlaying = False, looping = False, internalTime = 0\<rparr>)"
    using queued unfinished by (simp add: play)
  note silent =
    stop_request_clears_and_goes_on [OF stop, of "\<lambda>x. 0" None 17 "1 / 44100",
      THEN conjunct2, THEN conjunct1, THEN mp, OF refl]
  have b: "Venue_getSample (\<lambda>x. 0) None ?v 0 17 (1 / 44100) =
          (0, \<lparr>program = [], stopPlaying = False, looping = False, internalTime = - 1\<rparr>)"
    using silent by simp
  show ?thesis
    using stop unfinished a b by blast
qed

text \<open>
  Claim C10: the sample that \<^verbatim>\<open>getSample\<close> returns and the Venue it leaves do not
  depend on the argument \<^verbatim>\<open>globalTime\<close>, which the function does not name: two calls
  that differ in nothing else give the same sample and the same Venue.
\<close>

theorem getSample_ignores_globalTime:
  "Venue_getSample hash hollaback v unused globalTime timeDelta =
   Venue_getSample hash hollaback v unused globalTime' timeDelta"
  by (simp add: Venue_getSample_def)

end
